theory Spec2Isabelle
  imports Main
begin

section \<open>The document-processing state machine of the CDK stack\<close>

text \<open>
  The stack (class \<open>DocumentProcessingCdkStack\<close>) builds one Step Functions state machine,
  \<open>documentProcessingStateMachine\<close>, from a chain of \<open>LambdaInvoke\<close> tasks, \<open>Pass\<close> states,
  \<open>Choice\<close> states and the two terminal states \<open>ProcessingSucceeded\<close> and
  \<open>ProcessingFailed\<close>. The chain is data: this theory writes it down as a table from state
  names to state descriptions, one row per construct of the source, and runs it with an
  interpreter for the few constructs of the Amazon States Language the chain uses.

  The Lambda handlers themselves are not part of the stack: a worker is an oracle that gives,
  for the task state invoking it, either the JSON value the handler returned or a task failure.
  What the service supplies from outside the state data, the context object with its clock
  readings and the values of the intrinsic functions that draw fresh values, is an
  environment of the interpreter.
\<close>

subsection \<open>JSON values, reference paths, payload templates\<close>

datatype json =
    JNull
  | JBool bool
  | JNum int
  | JStr string
  | JArr "json list"
  | JObj "(string \<times> json) list"

text \<open>A reference path \<open>$.a.b\<close> is the list of its field names; \<open>$\<close> is the empty list.\<close>

type_synonym path = "string list"

fun lookup_path :: "path \<Rightarrow> json \<Rightarrow> json option" where
  "lookup_path [] j = Some j"
| "lookup_path (k # ks) (JObj kvs) =
     (case map_of kvs k of None \<Rightarrow> None | Some v \<Rightarrow> lookup_path ks v)"
| "lookup_path (k # ks) _ = None"

text \<open>
  \<open>TaskInput.fromObject\<close> and the \<open>parameters\<close> of a \<open>Pass\<close> state are objects whose
  fields are literals, reference paths (\<open>JsonPath.stringAt\<close>, \<open>JsonPath.numberAt\<close>,
  \<open>JsonPath.entirePayload\<close>, or a key ending in \<open>.$\<close>) or nested objects. A path that
  selects nothing makes the state fail: the evaluation returns \<open>None\<close>.

  The States Language has two more kinds of field, which read something other than the state
  data: a path into the context object, written \<open>$$.a.b\<close> (the execution's id and start
  time, the state's name and the time it was entered), and a call of an intrinsic function
  that draws a fresh value (\<open>States.UUID()\<close>, \<open>States.MathRandom(a, b)\<close>), kept here as
  its source text.
\<close>

datatype template =
    TLit json
  | TPath path
  | TContext path
  | TFresh string
  | TObj "(string \<times> template) list"

text \<open>
  What a state sees besides its data: the context object, and the value each fresh-value
  intrinsic yields when this state calls it.
\<close>

record ambient =
  context_object :: json
  intrinsic :: "string \<Rightarrow> json"

fun eval_template :: "ambient \<Rightarrow> template \<Rightarrow> json \<Rightarrow> json option"
  and eval_fields ::
    "ambient \<Rightarrow> (string \<times> template) list \<Rightarrow> json \<Rightarrow> (string \<times> json) list option" where
  "eval_template amb (TLit j) d = Some j"
| "eval_template amb (TPath p) d = lookup_path p d"
| "eval_template amb (TContext p) d = lookup_path p (context_object amb)"
| "eval_template amb (TFresh f) d = Some (intrinsic amb f)"
| "eval_template amb (TObj fs) d =
     (case eval_fields amb fs d of None \<Rightarrow> None | Some kvs \<Rightarrow> Some (JObj kvs))"
| "eval_fields amb [] d = Some []"
| "eval_fields amb (f # fs) d =
     (case eval_template amb (snd f) d of
        None \<Rightarrow> None
      | Some v \<Rightarrow> (case eval_fields amb fs d of
                     None \<Rightarrow> None
                   | Some kvs \<Rightarrow> Some ((fst f, v) # kvs)))"

subsection \<open>Choice conditions\<close>

text \<open>
  \<open>StringGreaterThan\<close> orders strings lexicographically, character by character; a proper
  prefix is smaller. \<open>string_less s t\<close> is \<open>s < t\<close> in that order.
\<close>

fun string_less :: "string \<Rightarrow> string \<Rightarrow> bool" where
  "string_less [] [] = False"
| "string_less [] (y # ys) = True"
| "string_less (x # xs) [] = False"
| "string_less (x # xs) (y # ys) =
     ((of_char x :: nat) < of_char y \<or> (x = y \<and> string_less xs ys))"

datatype condition =
    NumberEquals path int
  | IsPresent path
  | StringGreaterThan path string
  | And condition condition
  | OfContext condition

text \<open>
  A comparison whose variable path selects nothing is a runtime error of the state
  (\<open>None\<close>); a value of the wrong JSON type makes the comparison false. \<open>IsPresent\<close> never
  fails, and \<open>And\<close> stops at its first false operand, which is what guarding a comparison
  with \<open>isPresent\<close> relies on. \<open>OfContext c\<close> is the condition \<open>c\<close> with its variable
  written \<open>$$.a.b\<close>: it reads the context object instead of the state data, which is how
  a rule compares an entry time or a start time.
\<close>

fun eval_condition :: "ambient \<Rightarrow> condition \<Rightarrow> json \<Rightarrow> bool option" where
  "eval_condition amb (NumberEquals p n) d =
     (case lookup_path p d of
        None \<Rightarrow> None
      | Some (JNum m) \<Rightarrow> Some (m = n)
      | Some _ \<Rightarrow> Some False)"
| "eval_condition amb (IsPresent p) d = Some (lookup_path p d \<noteq> None)"
| "eval_condition amb (StringGreaterThan p s) d =
     (case lookup_path p d of
        None \<Rightarrow> None
      | Some (JStr t) \<Rightarrow> Some (string_less s t)
      | Some _ \<Rightarrow> Some False)"
| "eval_condition amb (And a b) d =
     (case eval_condition amb a d of
        None \<Rightarrow> None
      | Some False \<Rightarrow> Some False
      | Some True \<Rightarrow> eval_condition amb b d)"
| "eval_condition amb (OfContext c) d = eval_condition amb c (context_object amb)"

subsection \<open>States\<close>

text \<open>The construct ids of the source; they are the state names of the machine.\<close>

datatype state_name =
    ProcessDocumentWithTextract
  | CheckTextractProcessing
  | CheckTextractPayloadSize
  | StoreTextractResult
  | ExtractProcessedKeyLarge
  | ExtractProcessedKey
  | ExtractAndStoreMetadata
  | CheckMetadataExtraction
  | CheckMetadataPayloadSize
  | StoreMetadataResult
  | RetrievePayload
  | ExtractMetadataForBedrockLarge
  | GenerateImageDescriptionsLarge
  | MapImageDescriptionFieldsLarge
  | ExtractMetadataForBedrock
  | GenerateImageDescriptionsNormal
  | MapImageDescriptionFieldsNormal
  | AddToBedrockKnowledgeBase
  | CheckBedrockIntegration
  | ProcessingSucceeded
  | ProcessingFailed

text \<open>The Lambda functions of the stack that the machine invokes.\<close>

datatype lambda_fn =
    textractProcessorLambda
  | metadataExtractorLambda
  | imageDescriptionGeneratorLambda
  | bedrockKnowledgeBaseLambda
  | payloadUtilsLambda
  | retrievePayloadLambda

text \<open>
  \<open>Task f payload outputPath next\<close> is a \<open>LambdaInvoke\<close>: \<open>payload = None\<close> sends the whole
  state input, \<open>outputPath = None\<close> keeps the whole invocation result.
  \<open>Choice rules default\<close> is a \<open>Choice\<close> with its \<open>when\<close> rules in order and its
  \<open>otherwise\<close> state. \<open>Fail error cause\<close> carries the two strings of the \<open>Fail\<close> state.
\<close>

datatype state_def =
    Task lambda_fn "template option" "path option" state_name
  | Pass template state_name
  | Choice "(condition \<times> state_name) list" state_name
  | Succeed
  | Fail string string

type_synonym machine = "state_name \<Rightarrow> state_def option"

subsection \<open>Executions\<close>

text \<open>
  A worker either returns a JSON value or fails with an error name (an exception of the
  handler, a timeout). A \<open>LambdaInvoke\<close> retries the service exceptions of Lambda by itself;
  the answer below is what the task ends with. The chain has no error handler, so a failed
  task ends the execution.
\<close>

datatype task_result =
    Returned json
  | TaskFailed string

text \<open>One oracle answer per task state: what its worker does when the state invokes it.\<close>

type_synonym workers = "state_name \<Rightarrow> task_result"

text \<open>
  What the service supplies to each state of one execution. Two executions differ in it even
  on the same document: other ids, other times, other draws.
\<close>

type_synonym environment = "state_name \<Rightarrow> ambient"

text \<open>
  An execution fails in one of three ways: it enters a \<open>Fail\<close> state, with that state's
  error and cause; a state cannot be evaluated because a path selects nothing (the runtime
  error of the service); or the worker of a task state fails.
\<close>

datatype failure =
    FailState string string
  | RuntimeError state_name
  | TaskError state_name string

datatype outcome =
    Succeeded
  | Failed failure

text \<open>
  An entry of the history: the task state, the function it invoked, the payload it sent and
  what came back.
\<close>

type_synonym invocation = "state_name \<times> lambda_fn \<times> json \<times> task_result"

datatype step_result =
    Next state_name json
  | Halt outcome

text \<open>
  The result of a Lambda invocation as the task sees it, before \<open>outputPath\<close>: the handler's
  return value sits under \<open>Payload\<close>. (The SDK metadata fields of the real result are left
  out; no path of the machine reads them.)
\<close>

definition invoke_result :: "json \<Rightarrow> json" where
  "invoke_result r =
     JObj [(''ExecutedVersion'', JStr ''$LATEST''), (''Payload'', r), (''StatusCode'', JNum 200)]"

fun first_match ::
  "ambient \<Rightarrow> (condition \<times> state_name) list \<Rightarrow> state_name \<Rightarrow> json \<Rightarrow> state_name option" where
  "first_match amb [] dflt d = Some dflt"
| "first_match amb (r # rs) dflt d =
     (case eval_condition amb (fst r) d of
        None \<Rightarrow> None
      | Some True \<Rightarrow> Some (snd r)
      | Some False \<Rightarrow> first_match amb rs dflt d)"

text \<open>
  One state on state data \<open>d\<close>. A task builds its payload from \<open>d\<close>, invokes its worker and
  hands the result, filtered by \<open>outputPath\<close>, to its successor; the result replaces \<open>d\<close>. A
  \<open>Pass\<close> state with parameters hands over the evaluated parameters, which replace \<open>d\<close>. A
  \<open>Choice\<close> hands \<open>d\<close> unchanged to the state of its first rule that holds, or to its
  default.
\<close>

fun step ::
  "state_def \<Rightarrow> environment \<Rightarrow> workers \<Rightarrow> state_name \<Rightarrow> json \<Rightarrow> invocation list \<times> step_result" where
  "step (Task f payload outputPath nxt) E W s d =
     (case (case payload of None \<Rightarrow> Some d | Some t \<Rightarrow> eval_template (E s) t d) of
        None \<Rightarrow> ([], Halt (Failed (RuntimeError s)))
      | Some p \<Rightarrow>
          (case W s of
             TaskFailed e \<Rightarrow> ([(s, f, p, W s)], Halt (Failed (TaskError s e)))
           | Returned r \<Rightarrow>
               (case (case outputPath of
                        None \<Rightarrow> Some (invoke_result r)
                      | Some q \<Rightarrow> lookup_path q (invoke_result r)) of
                  None \<Rightarrow> ([(s, f, p, W s)], Halt (Failed (RuntimeError s)))
                | Some d' \<Rightarrow> ([(s, f, p, W s)], Next nxt d'))))"
| "step (Pass t nxt) E W s d =
     (case eval_template (E s) t d of
        None \<Rightarrow> ([], Halt (Failed (RuntimeError s)))
      | Some d' \<Rightarrow> ([], Next nxt d'))"
| "step (Choice rules dflt) E W s d =
     (case first_match (E s) rules dflt d of
        None \<Rightarrow> ([], Halt (Failed (RuntimeError s)))
      | Some s' \<Rightarrow> ([], Next s' d))"
| "step Succeed E W s d = ([], Halt Succeeded)"
| "step (Fail e c) E W s d = ([], Halt (Failed (FailState e c)))"

record run =
  path_of :: "state_name list"
  history :: "invocation list"
  terminal :: outcome

text \<open>One state of a machine; a state name without a row in the table is a runtime error.\<close>

definition step_at ::
  "machine \<Rightarrow> environment \<Rightarrow> workers \<Rightarrow> state_name \<Rightarrow> json \<Rightarrow> invocation list \<times> step_result" where
  "step_at M E W s d =
     (case M s of
        None \<Rightarrow> ([], Halt (Failed (RuntimeError s)))
      | Some sd \<Rightarrow> step sd E W s d)"

text \<open>
  The interpreter runs at most \<open>n\<close> states; \<open>None\<close> means the fuel ran out before a terminal
  state or a failure. The run records the states entered, the workers invoked and the
  outcome.
\<close>

fun exec ::
  "nat \<Rightarrow> machine \<Rightarrow> environment \<Rightarrow> workers \<Rightarrow> state_name \<Rightarrow> json \<Rightarrow> run option" where
  "exec 0 M E W s d = None"
| "exec (Suc n) M E W s d =
     (case step_at M E W s d of
        (ivs, Halt out) \<Rightarrow> Some \<lparr>path_of = [s], history = ivs, terminal = out\<rparr>
      | (ivs, Next s' d') \<Rightarrow>
          (case exec n M E W s' d' of
             None \<Rightarrow> None
           | Some r \<Rightarrow> Some \<lparr>path_of = s # path_of r, history = ivs @ history r,
                             terminal = terminal r\<rparr>))"

subsection \<open>The constructs of the stack\<close>

text \<open>
  Each construct of the source, under its own name. The source links the states with
  \<open>.next\<close>, \<open>.when\<close>, \<open>.otherwise\<close> and \<open>.afterwards\<close>; here a construct takes the
  names of its successors as arguments and the table below supplies them. The name of the
  processed-documents bucket, \<open>this.processedBucket.bucketName\<close>, is fixed at deployment: it
  is the parameter \<open>bn\<close>.
\<close>

definition textractTask :: "state_name \<Rightarrow> state_def" where
  "textractTask nxt = Task textractProcessorLambda None (Some [''Payload'']) nxt"

definition storeTextractResultTask :: "state_name \<Rightarrow> state_def" where
  "storeTextractResultTask nxt =
     Task payloadUtilsLambda
       (Some (TObj [(''operation'', TLit (JStr ''store'')), (''payload'', TPath [])]))
       (Some [''Payload'']) nxt"

definition extractProcessedKeyLargeState :: "string \<Rightarrow> state_name \<Rightarrow> state_def" where
  "extractProcessedKeyLargeState bn nxt =
     Pass (TObj [(''processed_bucket'', TLit (JStr bn)),
                 (''processed_key'', TPath [''payload_reference'', ''key'']),
                 (''original_status_code'', TPath [''original_status_code''])]) nxt"

definition extractProcessedKeyState :: "string \<Rightarrow> state_name \<Rightarrow> state_def" where
  "extractProcessedKeyState bn nxt =
     Pass (TObj [(''processed_bucket'', TLit (JStr bn)),
                 (''processed_key'', TLit (JStr ''dummy-key'')),
                 (''original_status_code'', TPath [''statusCode''])]) nxt"

definition metadataTask :: "state_name \<Rightarrow> state_def" where
  "metadataTask nxt =
     Task metadataExtractorLambda
       (Some (TObj [(''processed_bucket'', TPath [''processed_bucket'']),
                    (''processed_key'', TPath [''processed_key''])]))
       (Some [''Payload'']) nxt"

definition createImageDescriptionTask :: "state_name \<Rightarrow> state_def" where
  "createImageDescriptionTask nxt =
     Task imageDescriptionGeneratorLambda
       (Some (TObj [(''document_id'', TPath [''metadata'', ''document_id'']),
                    (''metadata_id'', TPath [''metadata'', ''id''])]))
       (Some [''Payload'']) nxt"

definition storeMetadataResultTask :: "state_name \<Rightarrow> state_def" where
  "storeMetadataResultTask nxt =
     Task payloadUtilsLambda
       (Some (TObj [(''operation'', TLit (JStr ''store'')), (''payload'', TPath [])]))
       (Some [''Payload'']) nxt"

definition retrievePayloadTask :: "state_name \<Rightarrow> state_def" where
  "retrievePayloadTask nxt = Task retrievePayloadLambda None (Some [''Payload'']) nxt"

definition extractMetadataForBedrockLargeState :: "state_name \<Rightarrow> state_def" where
  "extractMetadataForBedrockLargeState nxt =
     Pass (TObj [(''processed_bucket'', TPath [''processed_bucket'']),
                 (''processed_key'', TPath [''processed_key'']),
                 (''document_id'', TPath [''document_id'']),
                 (''metadata'', TObj [(''document_id'', TPath [''document_id'']),
                                      (''id'', TPath [''metadata_id''])])]) nxt"

definition extractMetadataForBedrockState :: "state_name \<Rightarrow> state_def" where
  "extractMetadataForBedrockState nxt =
     Pass (TObj [(''processed_bucket'', TPath [''metadata'', ''processed_bucket'']),
                 (''processed_key'', TPath [''metadata'', ''processed_key'']),
                 (''document_id'', TPath [''metadata'', ''document_id''])]) nxt"

text \<open>The two \<open>Pass\<close> states built inline in the chain, with identical parameters.\<close>

definition mapImageDescriptionFields :: "state_name \<Rightarrow> state_def" where
  "mapImageDescriptionFields nxt =
     Pass (TObj [(''processed_bucket'', TPath [''processed_bucket'']),
                 (''processed_key'', TPath [''processed_key'']),
                 (''document_id'', TPath [''document_id'']),
                 (''statusCode'', TPath [''statusCode'']),
                 (''operation'', TLit (JStr ''add_document_to_knowledge_base''))]) nxt"

definition bedrockTask :: "state_name \<Rightarrow> state_def" where
  "bedrockTask nxt = Task bedrockKnowledgeBaseLambda None None nxt"

definition successState :: state_def where
  "successState = Succeed"

definition failureState :: state_def where
  "failureState = Fail ''DocumentProcessingError'' ''Document processing failed''"

text \<open>
  The condition of both size checks:
  \<open>Condition.and(Condition.isPresent('$.body'), Condition.stringGreaterThan('$.body', '204800'))\<close>.
\<close>

definition payload_too_large :: condition where
  "payload_too_large = And (IsPresent [''body'']) (StringGreaterThan [''body''] ''204800'')"

subsection \<open>The chain\<close>

text \<open>
  \<open>const definition = textractTask.next(...)\<close>, state by state. \<open>.afterwards().next(c)\<close>
  gives the open ends of a \<open>Choice\<close> (here \<open>metadataTask\<close>, then \<open>bedrockTask\<close>) the
  successor \<open>c\<close>.
\<close>

fun stack_definition :: "string \<Rightarrow> machine" where
  "stack_definition bn ProcessDocumentWithTextract = Some (textractTask CheckTextractProcessing)"
| "stack_definition bn CheckTextractProcessing =
     Some (Choice [(NumberEquals [''statusCode''] 200, CheckTextractPayloadSize)] ProcessingFailed)"
| "stack_definition bn CheckTextractPayloadSize =
     Some (Choice [(payload_too_large, StoreTextractResult)] ExtractProcessedKey)"
| "stack_definition bn StoreTextractResult = Some (storeTextractResultTask ExtractProcessedKeyLarge)"
| "stack_definition bn ExtractProcessedKeyLarge =
     Some (extractProcessedKeyLargeState bn ExtractAndStoreMetadata)"
| "stack_definition bn ExtractProcessedKey = Some (extractProcessedKeyState bn ExtractAndStoreMetadata)"
| "stack_definition bn ExtractAndStoreMetadata = Some (metadataTask CheckMetadataExtraction)"
| "stack_definition bn CheckMetadataExtraction =
     Some (Choice [(NumberEquals [''statusCode''] 200, CheckMetadataPayloadSize)] ProcessingFailed)"
| "stack_definition bn CheckMetadataPayloadSize =
     Some (Choice [(payload_too_large, StoreMetadataResult)] ExtractMetadataForBedrock)"
| "stack_definition bn StoreMetadataResult = Some (storeMetadataResultTask RetrievePayload)"
| "stack_definition bn RetrievePayload = Some (retrievePayloadTask ExtractMetadataForBedrockLarge)"
| "stack_definition bn ExtractMetadataForBedrockLarge =
     Some (extractMetadataForBedrockLargeState GenerateImageDescriptionsLarge)"
| "stack_definition bn GenerateImageDescriptionsLarge =
     Some (createImageDescriptionTask MapImageDescriptionFieldsLarge)"
| "stack_definition bn MapImageDescriptionFieldsLarge =
     Some (mapImageDescriptionFields AddToBedrockKnowledgeBase)"
| "stack_definition bn ExtractMetadataForBedrock =
     Some (extractMetadataForBedrockState GenerateImageDescriptionsNormal)"
| "stack_definition bn GenerateImageDescriptionsNormal =
     Some (createImageDescriptionTask MapImageDescriptionFieldsNormal)"
| "stack_definition bn MapImageDescriptionFieldsNormal =
     Some (mapImageDescriptionFields AddToBedrockKnowledgeBase)"
| "stack_definition bn AddToBedrockKnowledgeBase = Some (bedrockTask CheckBedrockIntegration)"
| "stack_definition bn CheckBedrockIntegration =
     Some (Choice [(NumberEquals [''Payload'', ''statusCode''] 200, ProcessingSucceeded)]
             ProcessingFailed)"
| "stack_definition bn ProcessingSucceeded = Some successState"
| "stack_definition bn ProcessingFailed = Some failureState"

text \<open>
  \<open>new stepfunctions.StateMachine(this, 'DocumentProcessingStateMachine',
  { definition, timeout: cdk.Duration.minutes(30), ... })\<close>: the machine starts at the first
  state of the chain.
\<close>

record state_machine =
  start_at :: state_name
  states :: machine
  timeout_minutes :: nat

definition documentProcessingStateMachine :: "string \<Rightarrow> state_machine" where
  "documentProcessingStateMachine bn =
     \<lparr>start_at = ProcessDocumentWithTextract, states = stack_definition bn, timeout_minutes = 30\<rparr>"

text \<open>
  One execution on an input document event. The machine has 21 states; 21 steps of fuel are
  shown below to be enough for every execution.
\<close>

definition start_execution :: "string \<Rightarrow> environment \<Rightarrow> workers \<Rightarrow> json \<Rightarrow> run option" where
  "start_execution bn E W input =
     exec 21 (states (documentProcessingStateMachine bn)) E W
       (start_at (documentProcessingStateMachine bn)) input"

subsection \<open>The graph of a machine\<close>

text \<open>The states a state can hand over to, and whether it invokes a worker.\<close>

fun succs :: "state_def \<Rightarrow> state_name list" where
  "succs (Task f p q nxt) = [nxt]"
| "succs (Pass t nxt) = [nxt]"
| "succs (Choice rules dflt) = map snd rules @ [dflt]"
| "succs Succeed = []"
| "succs (Fail e c) = []"

fun is_task :: "state_def \<Rightarrow> bool" where
  "is_task (Task f p q nxt) = True"
| "is_task _ = False"

text \<open>
  Whether a field, a condition, a state reads nothing but the state data: no context path
  and no fresh-value intrinsic.
\<close>

fun data_only_template :: "template \<Rightarrow> bool"
  and data_only_fields :: "(string \<times> template) list \<Rightarrow> bool" where
  "data_only_template (TLit j) = True"
| "data_only_template (TPath p) = True"
| "data_only_template (TContext p) = False"
| "data_only_template (TFresh f) = False"
| "data_only_template (TObj fs) = data_only_fields fs"
| "data_only_fields [] = True"
| "data_only_fields (f # fs) = (data_only_template (snd f) \<and> data_only_fields fs)"

fun data_only_condition :: "condition \<Rightarrow> bool" where
  "data_only_condition (NumberEquals p n) = True"
| "data_only_condition (IsPresent p) = True"
| "data_only_condition (StringGreaterThan p s) = True"
| "data_only_condition (And a b) = (data_only_condition a \<and> data_only_condition b)"
| "data_only_condition (OfContext c) = False"

fun data_only_rules :: "(condition \<times> state_name) list \<Rightarrow> bool" where
  "data_only_rules [] = True"
| "data_only_rules (r # rs) = (data_only_condition (fst r) \<and> data_only_rules rs)"

fun data_only_state :: "state_def \<Rightarrow> bool" where
  "data_only_state (Task f payload outputPath nxt) =
     (case payload of None \<Rightarrow> True | Some t \<Rightarrow> data_only_template t)"
| "data_only_state (Pass t nxt) = data_only_template t"
| "data_only_state (Choice rules dflt) = data_only_rules rules"
| "data_only_state Succeed = True"
| "data_only_state (Fail e c) = True"

text \<open>
  A numbering of the states of the chain in the order the source builds them; every
  transition of the chain goes to a higher number.
\<close>

fun rank :: "state_name \<Rightarrow> nat" where
  "rank ProcessDocumentWithTextract = 0"
| "rank CheckTextractProcessing = 1"
| "rank CheckTextractPayloadSize = 2"
| "rank StoreTextractResult = 3"
| "rank ExtractProcessedKeyLarge = 4"
| "rank ExtractProcessedKey = 5"
| "rank ExtractAndStoreMetadata = 6"
| "rank CheckMetadataExtraction = 7"
| "rank CheckMetadataPayloadSize = 8"
| "rank StoreMetadataResult = 9"
| "rank RetrievePayload = 10"
| "rank ExtractMetadataForBedrockLarge = 11"
| "rank GenerateImageDescriptionsLarge = 12"
| "rank MapImageDescriptionFieldsLarge = 13"
| "rank ExtractMetadataForBedrock = 14"
| "rank GenerateImageDescriptionsNormal = 15"
| "rank MapImageDescriptionFieldsNormal = 16"
| "rank AddToBedrockKnowledgeBase = 17"
| "rank CheckBedrockIntegration = 18"
| "rank ProcessingSucceeded = 19"
| "rank ProcessingFailed = 20"

text \<open>
  The largest number of task states on a walk of the chain that starts at a state, the state
  included.
\<close>

fun tasks_ahead :: "state_name \<Rightarrow> nat" where
  "tasks_ahead ProcessDocumentWithTextract = 7"
| "tasks_ahead CheckTextractProcessing = 6"
| "tasks_ahead CheckTextractPayloadSize = 6"
| "tasks_ahead StoreTextractResult = 6"
| "tasks_ahead ExtractProcessedKeyLarge = 5"
| "tasks_ahead ExtractProcessedKey = 5"
| "tasks_ahead ExtractAndStoreMetadata = 5"
| "tasks_ahead CheckMetadataExtraction = 4"
| "tasks_ahead CheckMetadataPayloadSize = 4"
| "tasks_ahead StoreMetadataResult = 4"
| "tasks_ahead RetrievePayload = 3"
| "tasks_ahead ExtractMetadataForBedrockLarge = 2"
| "tasks_ahead GenerateImageDescriptionsLarge = 2"
| "tasks_ahead MapImageDescriptionFieldsLarge = 1"
| "tasks_ahead ExtractMetadataForBedrock = 2"
| "tasks_ahead GenerateImageDescriptionsNormal = 2"
| "tasks_ahead MapImageDescriptionFieldsNormal = 1"
| "tasks_ahead AddToBedrockKnowledgeBase = 1"
| "tasks_ahead CheckBedrockIntegration = 0"
| "tasks_ahead ProcessingSucceeded = 0"
| "tasks_ahead ProcessingFailed = 0"

definition is_task_at :: "machine \<Rightarrow> state_name \<Rightarrow> bool" where
  "is_task_at M s = (case M s of None \<Rightarrow> False | Some sd \<Rightarrow> is_task sd)"

text \<open>
  The three stages whose status code the chain checks, each with the \<open>Choice\<close> that follows
  it: \<open>CheckTextractProcessing\<close>, \<open>CheckMetadataExtraction\<close> and \<open>CheckBedrockIntegration\<close>.
  No \<open>Choice\<close> follows the image-description tasks.
\<close>

fun checked_stage :: "state_name \<Rightarrow> state_name option" where
  "checked_stage ProcessDocumentWithTextract = Some CheckTextractProcessing"
| "checked_stage ExtractAndStoreMetadata = Some CheckMetadataExtraction"
| "checked_stage AddToBedrockKnowledgeBase = Some CheckBedrockIntegration"
| "checked_stage _ = None"

subsection \<open>The earlier copy of the stack\<close>

text \<open>
  The repository holds a second, earlier copy of the stack file. Its chain has no
  image-description task and no \<open>RetrievePayload\<close>: both metadata branches go straight to
  \<open>AddToBedrockKnowledgeBase\<close>, which there has a payload and \<open>outputPath: '$.Payload'\<close>, and
  \<open>CheckBedrockIntegration\<close> reads \<open>$.statusCode\<close>. The other constructs are the same.
\<close>

definition extractMetadataForBedrockLargeState_earlier :: "state_name \<Rightarrow> state_def" where
  "extractMetadataForBedrockLargeState_earlier nxt =
     Pass (TObj [(''processed_bucket'', TPath [''processed_bucket'']),
                 (''processed_key'', TPath [''payload_reference'', ''key'']),
                 (''document_id'', TPath [''metadata'', ''document_id''])]) nxt"

definition bedrockTask_earlier :: "state_name \<Rightarrow> state_def" where
  "bedrockTask_earlier nxt =
     Task bedrockKnowledgeBaseLambda
       (Some (TObj [(''operation'', TLit (JStr ''add_document_to_knowledge_base'')),
                    (''processed_bucket'', TPath [''processed_bucket'']),
                    (''processed_key'', TPath [''processed_key'']),
                    (''document_id'', TPath [''document_id''])]))
       (Some [''Payload'']) nxt"

fun stack_definition_earlier :: "string \<Rightarrow> machine" where
  "stack_definition_earlier bn ProcessDocumentWithTextract =
     Some (textractTask CheckTextractProcessing)"
| "stack_definition_earlier bn CheckTextractProcessing =
     Some (Choice [(NumberEquals [''statusCode''] 200, CheckTextractPayloadSize)] ProcessingFailed)"
| "stack_definition_earlier bn CheckTextractPayloadSize =
     Some (Choice [(payload_too_large, StoreTextractResult)] ExtractProcessedKey)"
| "stack_definition_earlier bn StoreTextractResult =
     Some (storeTextractResultTask ExtractProcessedKeyLarge)"
| "stack_definition_earlier bn ExtractProcessedKeyLarge =
     Some (extractProcessedKeyLargeState bn ExtractAndStoreMetadata)"
| "stack_definition_earlier bn ExtractProcessedKey =
     Some (extractProcessedKeyState bn ExtractAndStoreMetadata)"
| "stack_definition_earlier bn ExtractAndStoreMetadata = Some (metadataTask CheckMetadataExtraction)"
| "stack_definition_earlier bn CheckMetadataExtraction =
     Some (Choice [(NumberEquals [''statusCode''] 200, CheckMetadataPayloadSize)] ProcessingFailed)"
| "stack_definition_earlier bn CheckMetadataPayloadSize =
     Some (Choice [(payload_too_large, StoreMetadataResult)] ExtractMetadataForBedrock)"
| "stack_definition_earlier bn StoreMetadataResult =
     Some (storeMetadataResultTask ExtractMetadataForBedrockLarge)"
| "stack_definition_earlier bn ExtractMetadataForBedrockLarge =
     Some (extractMetadataForBedrockLargeState_earlier AddToBedrockKnowledgeBase)"
| "stack_definition_earlier bn ExtractMetadataForBedrock =
     Some (extractMetadataForBedrockState AddToBedrockKnowledgeBase)"
| "stack_definition_earlier bn AddToBedrockKnowledgeBase =
     Some (bedrockTask_earlier CheckBedrockIntegration)"
| "stack_definition_earlier bn CheckBedrockIntegration =
     Some (Choice [(NumberEquals [''statusCode''] 200, ProcessingSucceeded)] ProcessingFailed)"
| "stack_definition_earlier bn ProcessingSucceeded = Some successState"
| "stack_definition_earlier bn ProcessingFailed = Some failureState"
| "stack_definition_earlier bn _ = None"

fun tasks_ahead_earlier :: "state_name \<Rightarrow> nat" where
  "tasks_ahead_earlier ProcessDocumentWithTextract = 5"
| "tasks_ahead_earlier CheckTextractProcessing = 4"
| "tasks_ahead_earlier CheckTextractPayloadSize = 4"
| "tasks_ahead_earlier StoreTextractResult = 4"
| "tasks_ahead_earlier ExtractProcessedKeyLarge = 3"
| "tasks_ahead_earlier ExtractProcessedKey = 3"
| "tasks_ahead_earlier ExtractAndStoreMetadata = 3"
| "tasks_ahead_earlier CheckMetadataExtraction = 2"
| "tasks_ahead_earlier CheckMetadataPayloadSize = 2"
| "tasks_ahead_earlier StoreMetadataResult = 2"
| "tasks_ahead_earlier ExtractMetadataForBedrockLarge = 1"
| "tasks_ahead_earlier ExtractMetadataForBedrock = 1"
| "tasks_ahead_earlier AddToBedrockKnowledgeBase = 1"
| "tasks_ahead_earlier _ = 0"

subsection \<open>Sample executions\<close>

text \<open>
  Two environments, as of two executions on different days: other execution ids, other
  start and entry times, other draws.
\<close>

definition sample_env :: environment where
  "sample_env s =
     \<lparr>context_object =
        JObj [(''Execution'', JObj [(''Id'', JStr ''exec-1''),
                                    (''StartTime'', JStr ''2025-03-01T10:00:00Z'')]),
              (''State'', JObj [(''EnteredTime'', JStr ''2025-03-01T10:00:05Z'')])],
      intrinsic = (\<lambda>f. JStr ''7d9f2c1e'')\<rparr>"

definition later_env :: environment where
  "later_env s =
     \<lparr>context_object =
        JObj [(''Execution'', JObj [(''Id'', JStr ''exec-2''),
                                    (''StartTime'', JStr ''2025-04-17T23:59:00Z'')]),
              (''State'', JObj [(''EnteredTime'', JStr ''2025-04-18T00:03:00Z'')])],
      intrinsic = (\<lambda>f. JNum 42)\<rparr>"

text \<open>The event the trigger function passes to \<open>start_execution\<close>: bucket and key.\<close>

definition sample_input :: json where
  "sample_input = JObj [(''bucket'', JStr ''documents''), (''key'', JStr ''report.pdf'')]"

definition sample_reference :: json where
  "sample_reference =
     JObj [(''payload_reference'',
            JObj [(''bucket'', JStr ''payloads''), (''key'', JStr ''payloads/report.json'')]),
           (''original_status_code'', JNum 200)]"

definition sample_metadata :: json where
  "sample_metadata =
     JObj [(''id'', JStr ''m-1''), (''document_id'', JStr ''doc-1''),
           (''processed_bucket'', JStr ''processed''), (''processed_key'', JStr ''report.json'')]"

definition sample_fields :: "int \<Rightarrow> json" where
  "sample_fields c =
     JObj [(''statusCode'', JNum c), (''processed_bucket'', JStr ''processed''),
           (''processed_key'', JStr ''report.json''), (''document_id'', JStr ''doc-1''),
           (''metadata_id'', JStr ''m-1'')]"

text \<open>
  Workers whose extraction and metadata outputs carry a body that the size check sends to the
  store, and that all succeed.
\<close>

fun large_workers :: workers where
  "large_workers ProcessDocumentWithTextract =
     Returned (JObj [(''statusCode'', JNum 200), (''body'', JStr ''{}'')])"
| "large_workers StoreTextractResult = Returned sample_reference"
| "large_workers ExtractAndStoreMetadata =
     Returned (JObj [(''statusCode'', JNum 200), (''body'', JStr ''{}''),
                     (''metadata'', sample_metadata)])"
| "large_workers StoreMetadataResult = Returned sample_reference"
| "large_workers RetrievePayload = Returned (sample_fields 200)"
| "large_workers GenerateImageDescriptionsLarge = Returned (sample_fields 200)"
| "large_workers AddToBedrockKnowledgeBase = Returned (JObj [(''statusCode'', JNum 200)])"
| "large_workers _ = TaskFailed ''Lambda.Unknown''"

text \<open>Workers whose outputs have no body, so that both size checks stay inline.\<close>

fun inline_workers :: workers where
  "inline_workers ProcessDocumentWithTextract = Returned (JObj [(''statusCode'', JNum 200)])"
| "inline_workers ExtractAndStoreMetadata =
     Returned (JObj [(''statusCode'', JNum 200), (''metadata'', sample_metadata)])"
| "inline_workers GenerateImageDescriptionsNormal = Returned (sample_fields 200)"
| "inline_workers AddToBedrockKnowledgeBase = Returned (JObj [(''statusCode'', JNum 200)])"
| "inline_workers _ = TaskFailed ''Lambda.Unknown''"

text \<open>Workers that all return the same status code and nothing else.\<close>

definition failing_workers :: "int \<Rightarrow> workers" where
  "failing_workers c s = Returned (JObj [(''statusCode'', JNum c)])"

section \<open>Properties\<close>

subsection \<open>Every transition follows an edge of the chain\<close>

lemma first_match_in: "first_match amb rs dflt d = Some s' \<Longrightarrow> s' \<in> set (map snd rs @ [dflt])"
  by (induction rs) (auto split: option.splits bool.splits)

lemma step_Next_succs: "step sd E W s d = (ivs, Next s' d') \<Longrightarrow> s' \<in> set (succs sd)"
  by (cases sd) (auto split: option.splits task_result.splits dest: first_match_in)

lemma step_invocations: "step sd E W s d = (ivs, res) \<Longrightarrow> length ivs \<le> (if is_task sd then 1 else 0)"
  by (cases sd) (auto split: option.splits task_result.splits)

lemmas construct_defs = textractTask_def storeTextractResultTask_def extractProcessedKeyLargeState_def
  extractProcessedKeyState_def metadataTask_def createImageDescriptionTask_def
  storeMetadataResultTask_def retrievePayloadTask_def extractMetadataForBedrockLargeState_def
  extractMetadataForBedrockState_def mapImageDescriptionFields_def bedrockTask_def
  successState_def failureState_def

lemma stack_rank: "stack_definition bn s = Some sd \<Longrightarrow> s' \<in> set (succs sd) \<Longrightarrow> rank s < rank s'"
  by (cases s) (auto simp: construct_defs)

lemma step_at_rank:
  assumes "step_at (stack_definition bn) E W s d = (ivs, Next s' d')"
  shows "rank s < rank s'"
proof (cases "stack_definition bn s")
  case None
  with assms show ?thesis by (simp add: step_at_def)
next
  case (Some sd)
  with assms have "step sd E W s d = (ivs, Next s' d')" by (simp add: step_at_def)
  then have "s' \<in> set (succs sd)" by (rule step_Next_succs)
  with Some show ?thesis by (rule stack_rank)
qed

lemma rank_le: "rank s \<le> 20"
  by (cases s) simp_all

lemma exec_terminates: "20 < rank s + n \<Longrightarrow> \<exists>r. exec n (stack_definition bn) E W s d = Some r"
proof (induction n arbitrary: s d)
  case 0
  then show ?case using rank_le [of s] by simp
next
  case (Suc n)
  obtain ivs res where st: "step_at (stack_definition bn) E W s d = (ivs, res)"
    by (cases "step_at (stack_definition bn) E W s d")
  show ?case
  proof (cases res)
    case (Next s' d')
    with st have "rank s < rank s'" by (simp add: step_at_rank)
    with Suc.prems have "20 < rank s' + n" by simp
    then obtain r where "exec n (stack_definition bn) E W s' d' = Some r"
      using Suc.IH by blast
    with st Next show ?thesis by simp
  next
    case (Halt out)
    with st show ?thesis by simp
  qed
qed

lemma exec_path_ranks:
  "exec n (stack_definition bn) E W s d = Some r \<Longrightarrow>
     sorted_wrt (<) (map rank (path_of r)) \<and> (\<forall>t \<in> set (path_of r). rank s \<le> rank t)"
proof (induction n arbitrary: s d r)
  case 0
  then show ?case by simp
next
  case (Suc n)
  obtain ivs res where st: "step_at (stack_definition bn) E W s d = (ivs, res)"
    by (cases "step_at (stack_definition bn) E W s d")
  show ?case
  proof (cases res)
    case (Next s' d')
    with st Suc.prems obtain r' where r': "exec n (stack_definition bn) E W s' d' = Some r'"
      and r: "path_of r = s # path_of r'"
      by (auto split: option.splits)
    from st Next have lt: "rank s < rank s'" by (simp add: step_at_rank)
    from Suc.IH [OF r'] have "sorted_wrt (<) (map rank (path_of r'))"
      and "\<forall>t \<in> set (path_of r'). rank s' \<le> rank t" by simp_all
    with lt r show ?thesis by fastforce
  next
    case (Halt out)
    with st Suc.prems show ?thesis by auto
  qed
qed

lemma exec_distinct: "exec n (stack_definition bn) E W s d = Some r \<Longrightarrow> distinct (path_of r)"
proof -
  assume "exec n (stack_definition bn) E W s d = Some r"
  then have "sorted_wrt (<) (map rank (path_of r))" by (simp add: exec_path_ranks)
  then have "distinct (map rank (path_of r))" by (simp add: strict_sorted_iff)
  then show ?thesis by (simp add: distinct_map)
qed


subsection \<open>Single states of the chain\<close>

lemma exec_Next:
  "step_at M E W s d = (ivs, Next s' d') \<Longrightarrow>
   exec (Suc n) M E W s d =
     (case exec n M E W s' d' of
        None \<Rightarrow> None
      | Some r \<Rightarrow> Some \<lparr>path_of = s # path_of r, history = ivs @ history r, terminal = terminal r\<rparr>)"
  by simp

lemma exec_Halt:
  "step_at M E W s d = (ivs, Halt out) \<Longrightarrow>
   exec (Suc n) M E W s d = Some \<lparr>path_of = [s], history = ivs, terminal = out\<rparr>"
  by simp

lemma too_large_eval:
  "eval_condition amb payload_too_large d =
     Some (\<exists>t. lookup_path [''body''] d = Some (JStr t) \<and> string_less ''204800'' t)"
  by (auto simp: payload_too_large_def split: option.splits json.splits bool.splits)

lemma first_match_single:
  "first_match amb [(c, a)] b d =
     (case eval_condition amb c d of None \<Rightarrow> None | Some t \<Rightarrow> Some (if t then a else b))"
  by (simp split: option.splits bool.splits)

lemma number_equals_eval:
  "eval_condition amb (NumberEquals p n) d =
     (case lookup_path p d of None \<Rightarrow> None | Some v \<Rightarrow> Some (v = JNum n))"
  by (simp split: option.splits json.splits)

lemma status_check_eval:
  "first_match amb [(NumberEquals p 200, a)] b d =
     (case lookup_path p d of None \<Rightarrow> None | Some v \<Rightarrow> Some (if v = JNum 200 then a else b))"
  unfolding first_match_single number_equals_eval by (simp split: option.splits)

lemma step_CheckTextractProcessing:
  "step_at (stack_definition bn) E W CheckTextractProcessing d =
     (case lookup_path [''statusCode''] d of
        None \<Rightarrow> ([], Halt (Failed (RuntimeError CheckTextractProcessing)))
      | Some v \<Rightarrow> ([], Next (if v = JNum 200 then CheckTextractPayloadSize else ProcessingFailed) d))"
  by (simp add: step_at_def status_check_eval del: first_match.simps split: option.splits)

lemma step_CheckTextractPayloadSize:
  "step_at (stack_definition bn) E W CheckTextractPayloadSize d =
     ([], Next (if (\<exists>t. lookup_path [''body''] d = Some (JStr t) \<and> string_less ''204800'' t)
                then StoreTextractResult else ExtractProcessedKey) d)"
  unfolding step_at_def stack_definition.simps option.case step.simps first_match_single too_large_eval
  by simp

lemma step_CheckMetadataPayloadSize:
  "step_at (stack_definition bn) E W CheckMetadataPayloadSize d =
     ([], Next (if (\<exists>t. lookup_path [''body''] d = Some (JStr t) \<and> string_less ''204800'' t)
                then StoreMetadataResult else ExtractMetadataForBedrock) d)"
  unfolding step_at_def stack_definition.simps option.case step.simps first_match_single too_large_eval
  by simp

lemma step_ExtractProcessedKey:
  "lookup_path [''statusCode''] d = Some c \<Longrightarrow>
   step_at (stack_definition bn) E W ExtractProcessedKey d =
     ([], Next ExtractAndStoreMetadata
        (JObj [(''processed_bucket'', JStr bn), (''processed_key'', JStr ''dummy-key''),
               (''original_status_code'', c)]))"
  by (simp add: step_at_def extractProcessedKeyState_def)

lemma step_ExtractProcessedKeyLarge:
  "lookup_path [''payload_reference'', ''key''] d = Some k \<Longrightarrow>
   lookup_path [''original_status_code''] d = Some c \<Longrightarrow>
   step_at (stack_definition bn) E W ExtractProcessedKeyLarge d =
     ([], Next ExtractAndStoreMetadata
        (JObj [(''processed_bucket'', JStr bn), (''processed_key'', k),
               (''original_status_code'', c)]))"
  by (simp add: step_at_def extractProcessedKeyLargeState_def)

lemma step_StoreTextractResult:
  "W StoreTextractResult = Returned r \<Longrightarrow>
   step_at (stack_definition bn) E W StoreTextractResult d =
     ([(StoreTextractResult, payloadUtilsLambda,
        JObj [(''operation'', JStr ''store''), (''payload'', d)], Returned r)],
      Next ExtractProcessedKeyLarge r)"
  by (simp add: step_at_def storeTextractResultTask_def invoke_result_def)

lemma invoked_ExtractAndStoreMetadata:
  "fst (step_at (stack_definition bn) E W ExtractAndStoreMetadata
          (JObj [(''processed_bucket'', b), (''processed_key'', k), (''original_status_code'', c)])) =
     [(ExtractAndStoreMetadata, metadataExtractorLambda,
       JObj [(''processed_bucket'', b), (''processed_key'', k)], W ExtractAndStoreMetadata)]"
  by (simp add: step_at_def metadataTask_def invoke_result_def split: task_result.splits)

lemma exec_history_starts:
  assumes "exec n M E W s d = Some r"
  shows "\<exists>h. history r = fst (step_at M E W s d) @ h"
  using assms by (cases n) (auto split: prod.splits step_result.splits option.splits)

lemma exec_path_starts:
  assumes "exec n M E W s d = Some r"
  shows "\<exists>p. path_of r = s # p"
  using assms by (cases n) (auto split: prod.splits step_result.splits option.splits)

lemma exec_Next_Some:
  "step_at M E W s d = (ivs, Next s' d') \<Longrightarrow> exec n M E W s' d' = Some r \<Longrightarrow>
   exec (Suc n) M E W s d =
     Some \<lparr>path_of = s # path_of r, history = ivs @ history r, terminal = terminal r\<rparr>"
  by simp

lemma replicate_one_not_greater: "\<not> string_less ''204800'' (replicate (Suc n) CHR ''1'')"
  by simp

subsection \<open>Termination\<close>

text \<open>
  C9. Every execution of the machine ends: the interpreter returns a run within its 21 steps
  for every worker behaviour and every input, the run enters no state twice (the chain is
  acyclic), and the machine is created with a time limit of 30 minutes.
\<close>

theorem execution_terminates_no_revisit:
  "\<exists>r. start_execution bn E W input = Some r \<and> distinct (path_of r)
       \<and> timeout_minutes (documentProcessingStateMachine bn) = 30"
proof -
  have "20 < rank ProcessDocumentWithTextract + 21" by simp
  then obtain r where r: "exec 21 (stack_definition bn) E W ProcessDocumentWithTextract input = Some r"
    using exec_terminates by blast
  then have "distinct (path_of r)" by (rule exec_distinct)
  with r show ?thesis
    by (simp add: start_execution_def documentProcessingStateMachine_def)
qed

subsection \<open>The size check\<close>

text \<open>
  C1. The size check is meant to send a body of more than 204800 characters to the store and
  to keep every shorter one inline. It does not: \<open>stringGreaterThan('$.body', '204800')\<close>
  orders the text of the body against the text \<open>204800\<close>. The two-character body \<open>{}\<close> is
  sent to \<open>StoreTextractResult\<close>, since \<open>{\<close> sorts after \<open>2\<close>; a body of 204801 characters
  \<open>1\<close> stays inline, since \<open>1\<close> sorts before \<open>2\<close>.
\<close>

theorem size_check_orders_text:
  "step_at (stack_definition bn) E W CheckTextractPayloadSize
     (JObj [(''statusCode'', JNum 200), (''body'', JStr ''{}'')]) =
     ([], Next StoreTextractResult (JObj [(''statusCode'', JNum 200), (''body'', JStr ''{}'')]))
   \<and> length ''{}'' \<le> (204800 :: nat)
   \<and> step_at (stack_definition bn) E W CheckTextractPayloadSize
     (JObj [(''statusCode'', JNum 200), (''body'', JStr (replicate 204801 CHR ''1''))]) =
     ([], Next ExtractProcessedKey
        (JObj [(''statusCode'', JNum 200), (''body'', JStr (replicate 204801 CHR ''1''))]))
   \<and> (204800 :: nat) < length (replicate 204801 CHR ''1'')"
proof -
  have "(204801 :: nat) = Suc 204800" by simp
  then have "\<not> string_less ''204800'' (replicate 204801 CHR ''1'')"
    using replicate_one_not_greater [of 204800] by simp
  then show ?thesis
    by (simp add: step_CheckTextractPayloadSize)
qed

subsection \<open>The history of an execution\<close>

lemma stack_tasks_ahead:
  "stack_definition bn s = Some sd \<Longrightarrow>
     (if is_task sd then 1 else 0) \<le> tasks_ahead s \<and>
     (\<forall>s' \<in> set (succs sd). (if is_task sd then 1 else 0) + tasks_ahead s' \<le> tasks_ahead s)"
  by (cases s) (auto simp: construct_defs)

text \<open>
  A budget \<open>f\<close> that pays for every task state along every edge of a machine bounds the
  history of its executions.
\<close>

lemma step_at_budget:
  fixes f :: "state_name \<Rightarrow> nat"
  assumes budget: "\<And>s sd. M s = Some sd \<Longrightarrow>
      (if is_task sd then 1 else 0) \<le> f s \<and>
      (\<forall>s' \<in> set (succs sd). (if is_task sd then 1 else 0) + f s' \<le> f s)"
    and st: "step_at M E W s d = (ivs, res)"
  shows "length ivs \<le> f s"
    and "res = Next s' d' \<Longrightarrow> length ivs + f s' \<le> f s"
proof -
  show "length ivs \<le> f s"
  proof (cases "M s")
    case None
    with st show ?thesis by (simp add: step_at_def)
  next
    case (Some sd)
    with st have st': "step sd E W s d = (ivs, res)" by (simp add: step_at_def)
    from step_invocations [OF st'] budget [OF Some] show ?thesis by simp
  qed
  show "length ivs + f s' \<le> f s" if "res = Next s' d'"
  proof (cases "M s")
    case None
    with st that show ?thesis by (simp add: step_at_def)
  next
    case (Some sd)
    with st that have st': "step sd E W s d = (ivs, Next s' d')" by (simp add: step_at_def)
    from step_Next_succs [OF st'] budget [OF Some]
    have "(if is_task sd then 1 else 0) + f s' \<le> f s" by blast
    with step_invocations [OF st'] show ?thesis by simp
  qed
qed

lemma exec_history_budget:
  fixes f :: "state_name \<Rightarrow> nat"
  assumes budget: "\<And>s sd. M s = Some sd \<Longrightarrow>
      (if is_task sd then 1 else 0) \<le> f s \<and>
      (\<forall>s' \<in> set (succs sd). (if is_task sd then 1 else 0) + f s' \<le> f s)"
  shows "exec n M E W s d = Some r \<Longrightarrow> length (history r) \<le> f s"
proof (induction n arbitrary: s d r)
  case 0
  then show ?case by simp
next
  case (Suc n)
  obtain ivs res where st: "step_at M E W s d = (ivs, res)"
    by (cases "step_at M E W s d")
  show ?case
  proof (cases res)
    case (Next s' d')
    with st Suc.prems obtain r' where r': "exec n M E W s' d' = Some r'"
      and r: "history r = ivs @ history r'"
      by (auto split: option.splits)
    from Suc.IH [OF r'] have "length (history r') \<le> f s'" .
    with step_at_budget(2) [of M f, OF budget st Next] r show ?thesis by simp
  next
    case (Halt out)
    with st Suc.prems have "history r = ivs" by auto
    with step_at_budget(1) [of M f, OF budget st] show ?thesis by simp
  qed
qed

lemma exec_history_bound:
  "exec n (stack_definition bn) E W s d = Some r \<Longrightarrow> length (history r) \<le> tasks_ahead s"
  by (rule exec_history_budget [of "stack_definition bn" tasks_ahead, OF stack_tasks_ahead])

lemma step_history_shape:
  "step sd E W s d = (ivs, res) \<Longrightarrow>
     (if is_task sd then map fst ivs = [s] \<or> (ivs = [] \<and> (\<exists>out. res = Halt out)) else ivs = [])"
  by (cases sd) (auto split: option.splits task_result.splits)

lemma step_at_history_shape:
  "step_at M E W s d = (ivs, res) \<Longrightarrow>
     (if is_task_at M s then map fst ivs = [s] \<or> (ivs = [] \<and> (\<exists>out. res = Halt out))
      else ivs = [])"
  by (cases "M s") (auto simp: step_at_def is_task_at_def dest: step_history_shape)

lemma exec_history_of_path:
  "exec n M E W s d = Some r \<Longrightarrow>
     \<exists>rest. filter (is_task_at M) (path_of r) = map fst (history r) @ rest \<and> length rest \<le> 1"
proof (induction n arbitrary: s d r)
  case 0
  then show ?case by simp
next
  case (Suc n)
  obtain ivs res where st: "step_at M E W s d = (ivs, res)"
    by (cases "step_at M E W s d")
  note shape = step_at_history_shape [OF st]
  show ?case
  proof (cases res)
    case (Next s' d')
    with st Suc.prems obtain r' where r': "exec n M E W s' d' = Some r'"
      and r: "path_of r = s # path_of r'" "history r = ivs @ history r'"
      by (auto split: option.splits)
    from Suc.IH [OF r'] obtain rest where
      "filter (is_task_at M) (path_of r') = map fst (history r') @ rest" "length rest \<le> 1"
      by blast
    with shape Next r show ?thesis by (auto split: if_splits)
  next
    case (Halt out)
    with st Suc.prems have "path_of r = [s]" "history r = ivs" by auto
    with shape show ?thesis by (auto split: if_splits)
  qed
qed

text \<open>
  C5 (amended). The history of an execution has one entry for each task state whose worker
  was invoked, in the order of the path: its state names are the task states of the path,
  except that a last task state whose payload could not be built is on the path and not in
  the history. No execution has more than 7 entries; the execution that externalizes both
  outputs and runs to the end has exactly 7.
\<close>

theorem history_counts_invoked_tasks:
  "\<exists>r rest. start_execution bn E W input = Some r
     \<and> filter (is_task_at (stack_definition bn)) (path_of r) = map fst (history r) @ rest
     \<and> length rest \<le> 1
     \<and> length (history r) \<le> 7"
proof -
  have "20 < rank ProcessDocumentWithTextract + 21" by simp
  then obtain r where r: "exec 21 (stack_definition bn) E W ProcessDocumentWithTextract input = Some r"
    using exec_terminates by blast
  from exec_history_of_path [OF r] obtain rest where
    "filter (is_task_at (stack_definition bn)) (path_of r) = map fst (history r) @ rest"
    "length rest \<le> 1" by blast
  moreover from exec_history_bound [OF r] have "length (history r) \<le> 7" by simp
  ultimately show ?thesis using r
    by (auto simp: start_execution_def documentProcessingStateMachine_def)
qed

text \<open>
  The bound of 5 entries that the claim gives for the path with both externalizations fails:
  that path invokes the extractor, the store, the metadata extractor, the store again, the
  retrieval function, the captioner and the ingestor.
\<close>

theorem both_externalized_history_is_7:
  "map_option (map fst \<circ> history) (start_execution ''processed'' sample_env large_workers sample_input) =
     Some [ProcessDocumentWithTextract, StoreTextractResult, ExtractAndStoreMetadata,
           StoreMetadataResult, RetrievePayload, GenerateImageDescriptionsLarge,
           AddToBedrockKnowledgeBase]
   \<and> map_option (length \<circ> history) (start_execution ''processed'' sample_env large_workers sample_input) =
     Some 7
   \<and> map_option terminal (start_execution ''processed'' sample_env large_workers sample_input) =
     Some Succeeded"
  by code_simp

subsection \<open>Failed stages\<close>

lemma step_ProcessDocumentWithTextract:
  "W ProcessDocumentWithTextract = Returned out \<Longrightarrow>
   step_at (stack_definition bn) E W ProcessDocumentWithTextract d =
     ([(ProcessDocumentWithTextract, textractProcessorLambda, d, Returned out)],
      Next CheckTextractProcessing out)"
  by (simp add: step_at_def textractTask_def invoke_result_def)

lemma step_ExtractAndStoreMetadata:
  "W ExtractAndStoreMetadata = Returned out \<Longrightarrow>
   fst (step_at (stack_definition bn) E W ExtractAndStoreMetadata d) \<noteq> [] \<Longrightarrow>
   snd (step_at (stack_definition bn) E W ExtractAndStoreMetadata d) = Next CheckMetadataExtraction out"
  by (simp add: step_at_def metadataTask_def invoke_result_def split: option.splits)

lemma step_AddToBedrockKnowledgeBase:
  "W AddToBedrockKnowledgeBase = Returned out \<Longrightarrow>
   step_at (stack_definition bn) E W AddToBedrockKnowledgeBase d =
     ([(AddToBedrockKnowledgeBase, bedrockKnowledgeBaseLambda, d, Returned out)],
      Next CheckBedrockIntegration (invoke_result out))"
  by (simp add: step_at_def bedrockTask_def)

lemma step_CheckMetadataExtraction:
  "step_at (stack_definition bn) E W CheckMetadataExtraction d =
     (case lookup_path [''statusCode''] d of
        None \<Rightarrow> ([], Halt (Failed (RuntimeError CheckMetadataExtraction)))
      | Some v \<Rightarrow> ([], Next (if v = JNum 200 then CheckMetadataPayloadSize else ProcessingFailed) d))"
  by (simp add: step_at_def status_check_eval del: first_match.simps split: option.splits)

lemma step_CheckBedrockIntegration:
  "step_at (stack_definition bn) E W CheckBedrockIntegration d =
     (case lookup_path [''Payload'', ''statusCode''] d of
        None \<Rightarrow> ([], Halt (Failed (RuntimeError CheckBedrockIntegration)))
      | Some v \<Rightarrow> ([], Next (if v = JNum 200 then ProcessingSucceeded else ProcessingFailed) d))"
  by (simp add: step_at_def status_check_eval del: first_match.simps split: option.splits)

lemma step_ProcessingFailed:
  "step_at (stack_definition bn) E W ProcessingFailed d =
     ([], Halt (Failed (FailState ''DocumentProcessingError'' ''Document processing failed'')))"
  by (simp add: step_at_def failureState_def)

lemma lookup_invoke_result:
  "lookup_path (''Payload'' # p) (invoke_result out) = lookup_path p out"
  by (simp add: invoke_result_def)

lemma failed_check_run:
  assumes "step_at (stack_definition bn) E W C d = ([], Next ProcessingFailed d)"
  shows "exec (Suc (Suc n)) (stack_definition bn) E W C d =
     Some \<lparr>path_of = [C, ProcessingFailed], history = [],
           terminal = Failed (FailState ''DocumentProcessingError'' ''Document processing failed'')\<rparr>"
  using exec_Next_Some [OF assms exec_Halt [OF step_ProcessingFailed]] by simp

lemma failed_stage_run:
  assumes stage: "checked_stage T = Some C"
    and out: "W T = Returned out"
    and status: "lookup_path [''statusCode''] out = Some v" "v \<noteq> JNum 200"
    and invoked: "fst (step_at (stack_definition bn) E W T d) \<noteq> []"
  shows "exec (3 + n) (stack_definition bn) E W T d =
     Some \<lparr>path_of = [T, C, ProcessingFailed],
           history = fst (step_at (stack_definition bn) E W T d),
           terminal = Failed (FailState ''DocumentProcessingError'' ''Document processing failed'')\<rparr>"
proof -
  let ?M = "stack_definition bn"
  obtain d' where st: "step_at ?M E W T d = (fst (step_at ?M E W T d), Next C d')"
    and chk: "step_at ?M E W C d' = ([], Next ProcessingFailed d')"
  proof (cases T)
    case ProcessDocumentWithTextract
    with stage have C: "C = CheckTextractProcessing" by simp
    from out ProcessDocumentWithTextract
    have "step_at ?M E W T d = (fst (step_at ?M E W T d), Next C out)"
      by (simp add: step_ProcessDocumentWithTextract C)
    moreover have "step_at ?M E W C out = ([], Next ProcessingFailed out)"
      using status by (simp add: C step_CheckTextractProcessing)
    ultimately show ?thesis by (rule that)
  next
    case ExtractAndStoreMetadata
    with stage have C: "C = CheckMetadataExtraction" by simp
    from out invoked ExtractAndStoreMetadata
    have "snd (step_at ?M E W T d) = Next C out"
      by (simp add: step_ExtractAndStoreMetadata C)
    then have "step_at ?M E W T d = (fst (step_at ?M E W T d), Next C out)"
      by (metis prod.collapse)
    moreover have "step_at ?M E W C out = ([], Next ProcessingFailed out)"
      using status by (simp add: C step_CheckMetadataExtraction)
    ultimately show ?thesis by (rule that)
  next
    case AddToBedrockKnowledgeBase
    with stage have C: "C = CheckBedrockIntegration" by simp
    from out AddToBedrockKnowledgeBase
    have "step_at ?M E W T d = (fst (step_at ?M E W T d), Next C (invoke_result out))"
      by (simp add: step_AddToBedrockKnowledgeBase C)
    moreover have "step_at ?M E W C (invoke_result out) = ([], Next ProcessingFailed (invoke_result out))"
      using status by (simp add: C step_CheckBedrockIntegration lookup_invoke_result)
    ultimately show ?thesis by (rule that)
  qed (use stage in simp_all)
  have "exec (Suc (Suc (Suc n))) ?M E W T d =
     Some \<lparr>path_of = [T, C, ProcessingFailed],
           history = fst (step_at (stack_definition bn) E W T d),
           terminal = Failed (FailState ''DocumentProcessingError'' ''Document processing failed'')\<rparr>"
    using exec_Next_Some [OF st failed_check_run [OF chk], of n] by (simp del: exec.simps)
  moreover have "3 + n = Suc (Suc (Suc n))" by simp
  ultimately show ?thesis by (simp only:)
qed

text \<open>
  C2 (amended). For the three stages whose status the chain checks (extraction, metadata
  extraction, ingestion): when the worker was invoked and its output carries a status code
  other than the number 200, the states after the task are the status check and then
  \<open>ProcessingFailed\<close>, where the execution ends; no size check and no later stage is
  entered. The image-description stage is not among them: no \<open>Choice\<close> reads its status
  code, which is handed on to the ingestion stage.
\<close>

theorem failed_stage_next_is_ProcessingFailed:
  assumes "checked_stage T = Some C"
    and "W T = Returned out"
    and "lookup_path [''statusCode''] out = Some v" and "v \<noteq> JNum 200"
    and "fst (step_at (stack_definition bn) E W T d) \<noteq> []"
  shows "map_option path_of (exec (3 + n) (stack_definition bn) E W T d) =
           Some [T, C, ProcessingFailed]"
  using failed_stage_run [OF assms, of n] by simp

theorem failed_stage_next_is_ProcessingFailed_witness:
  "checked_stage ProcessDocumentWithTextract = Some CheckTextractProcessing
   \<and> failing_workers 500 ProcessDocumentWithTextract = Returned (JObj [(''statusCode'', JNum 500)])
   \<and> map_option path_of
       (exec 3 (stack_definition ''processed'') sample_env (failing_workers 500) ProcessDocumentWithTextract
          sample_input) =
     Some [ProcessDocumentWithTextract, CheckTextractProcessing, ProcessingFailed]"
proof -
  have a: "checked_stage ProcessDocumentWithTextract = Some CheckTextractProcessing" by simp
  have b: "failing_workers 500 ProcessDocumentWithTextract = Returned (JObj [(''statusCode'', JNum 500)])"
    by (simp add: failing_workers_def)
  have c: "lookup_path [''statusCode''] (JObj [(''statusCode'', JNum 500)]) = Some (JNum 500)"
    by simp
  have d: "JNum 500 \<noteq> JNum 200" by simp
  have e: "fst (step_at (stack_definition ''processed'') sample_env (failing_workers 500)
                  ProcessDocumentWithTextract sample_input) \<noteq> []"
    by (simp add: step_ProcessDocumentWithTextract [where W = "failing_workers 500", OF b])
  from failed_stage_next_is_ProcessingFailed
         [where W = "failing_workers 500" and T = ProcessDocumentWithTextract and n = 0,
          OF a b c d e] a b
  show ?thesis by simp
qed


text \<open>
  The claim as stated, for every stage, fails at the image-description stage: with a captioner
  that returns status 500 the execution goes on to \<open>AddToBedrockKnowledgeBase\<close> and ends in
  \<open>ProcessingSucceeded\<close>.
\<close>

theorem captioner_failure_is_not_checked:
  "lookup_path [''statusCode''] (sample_fields 500) = Some (JNum 500)
   \<and> map_option path_of
       (start_execution ''processed'' sample_env
          (large_workers(GenerateImageDescriptionsLarge := Returned (sample_fields 500)))
          sample_input) =
     Some [ProcessDocumentWithTextract, CheckTextractProcessing, CheckTextractPayloadSize,
           StoreTextractResult, ExtractProcessedKeyLarge, ExtractAndStoreMetadata,
           CheckMetadataExtraction, CheckMetadataPayloadSize, StoreMetadataResult,
           RetrievePayload, ExtractMetadataForBedrockLarge, GenerateImageDescriptionsLarge,
           MapImageDescriptionFieldsLarge, AddToBedrockKnowledgeBase, CheckBedrockIntegration,
           ProcessingSucceeded]
   \<and> map_option terminal
       (start_execution ''processed'' sample_env
          (large_workers(GenerateImageDescriptionsLarge := Returned (sample_fields 500)))
          sample_input) = Some Succeeded"
  by code_simp

text \<open>
  C3 (amended). When one of the three checked stages returns a status code other than the
  number 200, the execution ends in the single \<open>Fail\<close> state of the chain, whose error is
  \<open>DocumentProcessingError\<close> and whose cause is the fixed text \<open>Document processing failed\<close>,
  the same for every stage.
\<close>

theorem failed_stage_cause_is_fixed:
  assumes "checked_stage T = Some C"
    and "W T = Returned out"
    and "lookup_path [''statusCode''] out = Some v" and "v \<noteq> JNum 200"
    and "fst (step_at (stack_definition bn) E W T d) \<noteq> []"
  shows "map_option terminal (exec (3 + n) (stack_definition bn) E W T d) =
           Some (Failed (FailState ''DocumentProcessingError'' ''Document processing failed''))"
  using failed_stage_run [OF assms, of n] by simp


theorem failed_stage_cause_is_fixed_witness:
  "checked_stage AddToBedrockKnowledgeBase = Some CheckBedrockIntegration
   \<and> failing_workers 503 AddToBedrockKnowledgeBase = Returned (JObj [(''statusCode'', JNum 503)])
   \<and> map_option terminal
       (exec 3 (stack_definition ''processed'') sample_env (failing_workers 503) AddToBedrockKnowledgeBase
          (sample_fields 200)) =
     Some (Failed (FailState ''DocumentProcessingError'' ''Document processing failed''))"
proof -
  have a: "checked_stage AddToBedrockKnowledgeBase = Some CheckBedrockIntegration" by simp
  have b: "failing_workers 503 AddToBedrockKnowledgeBase = Returned (JObj [(''statusCode'', JNum 503)])"
    by (simp add: failing_workers_def)
  have c: "lookup_path [''statusCode''] (JObj [(''statusCode'', JNum 503)]) = Some (JNum 503)"
    by simp
  have d: "JNum 503 \<noteq> JNum 200" by simp
  have e: "fst (step_at (stack_definition ''processed'') sample_env (failing_workers 503)
                  AddToBedrockKnowledgeBase (sample_fields 200)) \<noteq> []"
    by (simp add: step_AddToBedrockKnowledgeBase [where W = "failing_workers 503", OF b])
  from failed_stage_cause_is_fixed
         [where W = "failing_workers 503" and T = AddToBedrockKnowledgeBase and n = 0,
          OF a b c d e] a b
  show ?thesis by simp
qed

text \<open>
  The claim as stated, a cause that names the failing stage, fails: an execution whose
  extraction returns 500 and one whose metadata extraction returns 500 stop after different
  stages and end with the same error and cause.
\<close>

theorem failure_cause_does_not_name_stage:
  "map_option path_of (start_execution ''processed'' sample_env (failing_workers 500) sample_input) =
     Some [ProcessDocumentWithTextract, CheckTextractProcessing, ProcessingFailed]
   \<and> map_option terminal (start_execution ''processed'' sample_env (failing_workers 500) sample_input) =
     Some (Failed (FailState ''DocumentProcessingError'' ''Document processing failed''))
   \<and> map_option path_of
       (start_execution ''processed'' sample_env
          (inline_workers(ExtractAndStoreMetadata := Returned (JObj [(''statusCode'', JNum 500)])))
          sample_input) =
     Some [ProcessDocumentWithTextract, CheckTextractProcessing, CheckTextractPayloadSize,
           ExtractProcessedKey, ExtractAndStoreMetadata, CheckMetadataExtraction,
           ProcessingFailed]
   \<and> map_option terminal
       (start_execution ''processed'' sample_env
          (inline_workers(ExtractAndStoreMetadata := Returned (JObj [(''statusCode'', JNum 500)])))
          sample_input) =
     Some (Failed (FailState ''DocumentProcessingError'' ''Document processing failed''))"
  by code_simp

subsection \<open>The two branches after the extraction stage\<close>

lemma inline_extraction_run:
  assumes s1: "step_at (stack_definition bn) E W CheckTextractPayloadSize d = ([], Next ExtractProcessedKey d)"
    and status: "lookup_path [''statusCode''] d = Some c"
  shows "\<exists>r p h. exec (19 + n) (stack_definition bn) E W CheckTextractPayloadSize d = Some r
          \<and> path_of r = CheckTextractPayloadSize # ExtractProcessedKey # ExtractAndStoreMetadata # p
          \<and> StoreTextractResult \<notin> set (path_of r)
          \<and> history r =
              (ExtractAndStoreMetadata, metadataExtractorLambda,
               JObj [(''processed_bucket'', JStr bn), (''processed_key'', JStr ''dummy-key'')],
               W ExtractAndStoreMetadata) # h"
proof -
  let ?M = "stack_definition bn"
  let ?d1 = "JObj [(''processed_bucket'', JStr bn), (''processed_key'', JStr ''dummy-key''),
                   (''original_status_code'', c)]"
  have s2: "step_at ?M E W ExtractProcessedKey d = ([], Next ExtractAndStoreMetadata ?d1)"
    using status by (rule step_ExtractProcessedKey)
  have "20 < rank ExtractAndStoreMetadata + (17 + n)" by simp
  then obtain r3 where r3: "exec (17 + n) ?M E W ExtractAndStoreMetadata ?d1 = Some r3"
    using exec_terminates by blast
  obtain p where p: "path_of r3 = ExtractAndStoreMetadata # p"
    using exec_path_starts [OF r3] by blast
  obtain h where h: "history r3 =
      (ExtractAndStoreMetadata, metadataExtractorLambda,
       JObj [(''processed_bucket'', JStr bn), (''processed_key'', JStr ''dummy-key'')],
       W ExtractAndStoreMetadata) # h"
    using exec_history_starts [OF r3] by (auto simp: invoked_ExtractAndStoreMetadata)
  have "\<forall>t \<in> set (path_of r3). rank ExtractAndStoreMetadata \<le> rank t"
    using exec_path_ranks [OF r3] by simp
  then have notin: "StoreTextractResult \<notin> set (path_of r3)" by auto
  note e = exec_Next_Some [OF s1 exec_Next_Some [OF s2 r3]]
  have "Suc (Suc (17 + n)) = 19 + n" by simp
  with e have "exec (19 + n) ?M E W CheckTextractPayloadSize d =
      Some \<lparr>path_of = CheckTextractPayloadSize # ExtractProcessedKey # path_of r3,
            history = history r3, terminal = terminal r3\<rparr>"
    by simp
  with p h notin show ?thesis by simp
qed

lemma externalized_extraction_run:
  assumes s1: "step_at (stack_definition bn) E W CheckTextractPayloadSize d = ([], Next StoreTextractResult d)"
    and store: "W StoreTextractResult = Returned ref"
    and key: "lookup_path [''payload_reference'', ''key''] ref = Some k"
    and status: "lookup_path [''original_status_code''] ref = Some c"
  shows "\<exists>r p h. exec (19 + n) (stack_definition bn) E W CheckTextractPayloadSize d = Some r
          \<and> path_of r = CheckTextractPayloadSize # StoreTextractResult # ExtractProcessedKeyLarge
                # ExtractAndStoreMetadata # p
          \<and> history r =
              (StoreTextractResult, payloadUtilsLambda,
               JObj [(''operation'', JStr ''store''), (''payload'', d)], Returned ref)
              # (ExtractAndStoreMetadata, metadataExtractorLambda,
                 JObj [(''processed_bucket'', JStr bn), (''processed_key'', k)],
                 W ExtractAndStoreMetadata) # h"
proof -
  let ?M = "stack_definition bn"
  let ?d1 = "JObj [(''processed_bucket'', JStr bn), (''processed_key'', k),
                   (''original_status_code'', c)]"
  note s2 = step_StoreTextractResult [where W = W and E = E and bn = bn and d = d, OF store]
  have s3: "step_at ?M E W ExtractProcessedKeyLarge ref = ([], Next ExtractAndStoreMetadata ?d1)"
    using key status by (rule step_ExtractProcessedKeyLarge)
  have "20 < rank ExtractAndStoreMetadata + (16 + n)" by simp
  then obtain r4 where r4: "exec (16 + n) ?M E W ExtractAndStoreMetadata ?d1 = Some r4"
    using exec_terminates by blast
  obtain p where p: "path_of r4 = ExtractAndStoreMetadata # p"
    using exec_path_starts [OF r4] by blast
  obtain h where h: "history r4 =
      (ExtractAndStoreMetadata, metadataExtractorLambda,
       JObj [(''processed_bucket'', JStr bn), (''processed_key'', k)],
       W ExtractAndStoreMetadata) # h"
    using exec_history_starts [OF r4] by (auto simp: invoked_ExtractAndStoreMetadata)
  note e = exec_Next_Some [OF s1 exec_Next_Some [OF s2 exec_Next_Some [OF s3 r4]]]
  have "Suc (Suc (Suc (16 + n))) = 19 + n" by simp
  with e have "exec (19 + n) ?M E W CheckTextractPayloadSize d =
      Some \<lparr>path_of = CheckTextractPayloadSize # StoreTextractResult # ExtractProcessedKeyLarge
                # path_of r4,
            history = (StoreTextractResult, payloadUtilsLambda,
               JObj [(''operation'', JStr ''store''), (''payload'', d)], Returned ref) # history r4,
            terminal = terminal r4\<rparr>"
    by simp
  with p h show ?thesis by simp
qed

text \<open>
  A status-200 output without a \<open>body\<close> field is never externalized, whatever its size:
  both size checks take their \<open>otherwise\<close> branch, because \<open>isPresent('$.body')\<close> is false
  and the comparison is not evaluated. After the extraction stage the execution goes through
  \<open>ExtractProcessedKey\<close> straight to the metadata extractor, which is the next worker
  invoked; \<open>StoreTextractResult\<close> is not entered.
\<close>

lemma bodyless_output_stays_inline:
  assumes status: "lookup_path [''statusCode''] d = Some (JNum 200)"
    and body: "lookup_path [''body''] d = None"
  shows "step_at (stack_definition bn) E W CheckTextractPayloadSize d = ([], Next ExtractProcessedKey d)
    \<and> step_at (stack_definition bn) E W CheckMetadataPayloadSize d =
        ([], Next ExtractMetadataForBedrock d)
    \<and> (\<exists>r p h. exec (19 + n) (stack_definition bn) E W CheckTextractPayloadSize d = Some r
          \<and> path_of r = CheckTextractPayloadSize # ExtractProcessedKey # ExtractAndStoreMetadata # p
          \<and> StoreTextractResult \<notin> set (path_of r)
          \<and> history r =
              (ExtractAndStoreMetadata, metadataExtractorLambda,
               JObj [(''processed_bucket'', JStr bn), (''processed_key'', JStr ''dummy-key'')],
               W ExtractAndStoreMetadata) # h)"
proof -
  have s1: "step_at (stack_definition bn) E W CheckTextractPayloadSize d = ([], Next ExtractProcessedKey d)"
    using body by (simp add: step_CheckTextractPayloadSize)
  have s1': "step_at (stack_definition bn) E W CheckMetadataPayloadSize d =
      ([], Next ExtractMetadataForBedrock d)"
    using body by (simp add: step_CheckMetadataPayloadSize)
  from s1 s1' inline_extraction_run [OF s1 status, of n] show ?thesis by simp
qed

text \<open>
  C8. On the inline branch the \<open>processed_key\<close> sent to the metadata extractor is the
  literal \<open>dummy-key\<close> of \<open>ExtractProcessedKey\<close>, whatever the extraction returned; on the
  externalized branch it is the \<open>payload_reference.key\<close> that \<open>StoreTextractResult\<close>
  returned.
\<close>

theorem processed_key_by_branch:
  "(step_at (stack_definition bn) E W CheckTextractPayloadSize d = ([], Next ExtractProcessedKey d) \<longrightarrow>
    lookup_path [''statusCode''] d = Some c \<longrightarrow>
    (\<exists>r h. exec (19 + n) (stack_definition bn) E W CheckTextractPayloadSize d = Some r
       \<and> history r =
           (ExtractAndStoreMetadata, metadataExtractorLambda,
            JObj [(''processed_bucket'', JStr bn), (''processed_key'', JStr ''dummy-key'')],
            W ExtractAndStoreMetadata) # h))
   \<and> (step_at (stack_definition bn) E W CheckTextractPayloadSize d = ([], Next StoreTextractResult d) \<longrightarrow>
    W StoreTextractResult = Returned ref \<longrightarrow>
    lookup_path [''payload_reference'', ''key''] ref = Some k \<longrightarrow>
    lookup_path [''original_status_code''] ref = Some c' \<longrightarrow>
    (\<exists>r h. exec (19 + n) (stack_definition bn) E W CheckTextractPayloadSize d = Some r
       \<and> history r =
           (StoreTextractResult, payloadUtilsLambda,
            JObj [(''operation'', JStr ''store''), (''payload'', d)], Returned ref)
           # (ExtractAndStoreMetadata, metadataExtractorLambda,
              JObj [(''processed_bucket'', JStr bn), (''processed_key'', k)],
              W ExtractAndStoreMetadata) # h))"
  using inline_extraction_run [of bn E W d c n]
    externalized_extraction_run [of bn E W d ref k c' n]
  by blast

theorem processed_key_by_branch_witness:
  "(\<exists>r h. exec 19 (stack_definition ''processed'') sample_env inline_workers CheckTextractPayloadSize
             (JObj [(''statusCode'', JNum 200)]) = Some r
       \<and> history r =
           (ExtractAndStoreMetadata, metadataExtractorLambda,
            JObj [(''processed_bucket'', JStr ''processed''), (''processed_key'', JStr ''dummy-key'')],
            inline_workers ExtractAndStoreMetadata) # h)
   \<and> (\<exists>r h. exec 19 (stack_definition ''processed'') sample_env large_workers CheckTextractPayloadSize
             (JObj [(''statusCode'', JNum 200), (''body'', JStr ''{}'')]) = Some r
       \<and> history r =
           (StoreTextractResult, payloadUtilsLambda,
            JObj [(''operation'', JStr ''store''),
                  (''payload'', JObj [(''statusCode'', JNum 200), (''body'', JStr ''{}'')])],
            Returned sample_reference)
           # (ExtractAndStoreMetadata, metadataExtractorLambda,
              JObj [(''processed_bucket'', JStr ''processed''),
                    (''processed_key'', JStr ''payloads/report.json'')],
              large_workers ExtractAndStoreMetadata) # h)"
proof -
  let ?d1 = "JObj [(''statusCode'', JNum 200)]"
  let ?d2 = "JObj [(''statusCode'', JNum 200), (''body'', JStr ''{}'')]"
  have a1: "step_at (stack_definition ''processed'') sample_env inline_workers CheckTextractPayloadSize ?d1 =
      ([], Next ExtractProcessedKey ?d1)"
    by (simp add: step_CheckTextractPayloadSize)
  have a2: "lookup_path [''statusCode''] ?d1 = Some (JNum 200)" by simp
  have b1: "step_at (stack_definition ''processed'') sample_env large_workers CheckTextractPayloadSize ?d2 =
      ([], Next StoreTextractResult ?d2)"
    by (simp add: step_CheckTextractPayloadSize)
  have b2: "large_workers StoreTextractResult = Returned sample_reference" by simp
  have b3: "lookup_path [''payload_reference'', ''key''] sample_reference =
      Some (JStr ''payloads/report.json'')"
    by (simp add: sample_reference_def)
  have b4: "lookup_path [''original_status_code''] sample_reference = Some (JNum 200)"
    by (simp add: sample_reference_def)
  note inline = processed_key_by_branch
    [where bn = "''processed''" and W = inline_workers and d = ?d1 and c = "JNum 200" and n = 0]
  note large = processed_key_by_branch
    [where bn = "''processed''" and W = large_workers and d = ?d2 and n = 0
       and ref = sample_reference and k = "JStr ''payloads/report.json''" and c' = "JNum 200"]
  from inline a1 a2 have
    "\<exists>r h. exec (19 + 0) (stack_definition ''processed'') sample_env inline_workers CheckTextractPayloadSize
             ?d1 = Some r
       \<and> history r =
           (ExtractAndStoreMetadata, metadataExtractorLambda,
            JObj [(''processed_bucket'', JStr ''processed''), (''processed_key'', JStr ''dummy-key'')],
            inline_workers ExtractAndStoreMetadata) # h"
    by blast
  moreover from large b1 b2 b3 b4 have
    "\<exists>r h. exec (19 + 0) (stack_definition ''processed'') sample_env large_workers CheckTextractPayloadSize
             ?d2 = Some r
       \<and> history r =
           (StoreTextractResult, payloadUtilsLambda,
            JObj [(''operation'', JStr ''store''), (''payload'', ?d2)], Returned sample_reference)
           # (ExtractAndStoreMetadata, metadataExtractorLambda,
              JObj [(''processed_bucket'', JStr ''processed''),
                    (''processed_key'', JStr ''payloads/report.json'')],
              large_workers ExtractAndStoreMetadata) # h"
    by blast
  ultimately show ?thesis by simp
qed

subsection \<open>The two branches after the metadata stage\<close>

text \<open>
  \<open>ExtractMetadataForBedrock\<close> replaces the state data by the three fields
  \<open>processed_bucket\<close>, \<open>processed_key\<close> and \<open>document_id\<close>. The task that follows,
  \<open>GenerateImageDescriptionsNormal\<close>, builds its payload from \<open>$.metadata.document_id\<close> and
  \<open>$.metadata.id\<close>, which that data does not have: the inline branch stops there for every
  metadata output, before any worker is invoked. (\<open>ExtractMetadataForBedrockLarge\<close>, on the
  other branch, does build the \<open>metadata\<close> object.)
\<close>

lemma step_ExtractMetadataForBedrock:
  "step_at (stack_definition bn) E W ExtractMetadataForBedrock d =
     ([], Halt (Failed (RuntimeError ExtractMetadataForBedrock)))
   \<or> (\<exists>a b c. step_at (stack_definition bn) E W ExtractMetadataForBedrock d =
         ([], Next GenerateImageDescriptionsNormal
            (JObj [(''processed_bucket'', a), (''processed_key'', b), (''document_id'', c)])))"
  by (simp add: step_at_def extractMetadataForBedrockState_def split: option.splits)

lemma step_GenerateImageDescriptionsNormal:
  "step_at (stack_definition bn) E W GenerateImageDescriptionsNormal
     (JObj [(''processed_bucket'', a), (''processed_key'', b), (''document_id'', c)]) =
     ([], Halt (Failed (RuntimeError GenerateImageDescriptionsNormal)))"
  by (simp add: step_at_def createImageDescriptionTask_def)

lemma inline_metadata_branch_never_invokes:
  "\<exists>r. exec (Suc (Suc n)) (stack_definition bn) E W ExtractMetadataForBedrock d = Some r
      \<and> history r = []
      \<and> (path_of r = [ExtractMetadataForBedrock]
            \<and> terminal r = Failed (RuntimeError ExtractMetadataForBedrock)
          \<or> path_of r = [ExtractMetadataForBedrock, GenerateImageDescriptionsNormal]
            \<and> terminal r = Failed (RuntimeError GenerateImageDescriptionsNormal))"
  using step_ExtractMetadataForBedrock [of bn E W d]
proof
  assume "step_at (stack_definition bn) E W ExtractMetadataForBedrock d =
     ([], Halt (Failed (RuntimeError ExtractMetadataForBedrock)))"
  from exec_Halt [OF this, of "Suc n"] show ?thesis by (simp del: exec.simps)
next
  assume "\<exists>a b c. step_at (stack_definition bn) E W ExtractMetadataForBedrock d =
         ([], Next GenerateImageDescriptionsNormal
            (JObj [(''processed_bucket'', a), (''processed_key'', b), (''document_id'', c)]))"
  then obtain a b c where st: "step_at (stack_definition bn) E W ExtractMetadataForBedrock d =
         ([], Next GenerateImageDescriptionsNormal
            (JObj [(''processed_bucket'', a), (''processed_key'', b), (''document_id'', c)]))"
    by blast
  from exec_Next_Some [OF st exec_Halt [OF step_GenerateImageDescriptionsNormal], of n]
  show ?thesis by (simp del: exec.simps)
qed

text \<open>
  C6. The two branches after the metadata size check are meant to meet at the same
  downstream stage. On workers whose outputs have no body, the execution takes the inline
  branch at both size checks and stops with a runtime error at
  \<open>GenerateImageDescriptionsNormal\<close>: the captioner and the ingestor are never invoked, and
  the history holds the extractor and the metadata extractor only.
\<close>

theorem inline_metadata_branch_stops_before_captioner:
  "map_option path_of (start_execution ''processed'' sample_env inline_workers sample_input) =
     Some [ProcessDocumentWithTextract, CheckTextractProcessing, CheckTextractPayloadSize,
           ExtractProcessedKey, ExtractAndStoreMetadata, CheckMetadataExtraction,
           CheckMetadataPayloadSize, ExtractMetadataForBedrock, GenerateImageDescriptionsNormal]
   \<and> map_option (map fst \<circ> history) (start_execution ''processed'' sample_env inline_workers sample_input) =
     Some [ProcessDocumentWithTextract, ExtractAndStoreMetadata]
   \<and> map_option terminal (start_execution ''processed'' sample_env inline_workers sample_input) =
     Some (Failed (RuntimeError GenerateImageDescriptionsNormal))"
  by code_simp

text \<open>
  C10. A status-200 output without a \<open>body\<close> field is meant to stay inline and go on to the
  next stage. After the metadata stage it stays inline and goes nowhere: for every metadata
  output that has a status code of 200, a \<open>metadata\<close> object and no body, the size check
  hands it to \<open>ExtractMetadataForBedrock\<close>, and the execution then stops with a runtime
  error, there or at \<open>GenerateImageDescriptionsNormal\<close>, before any worker is invoked;
  with the metadata of the sample it stops at \<open>GenerateImageDescriptionsNormal\<close>. This is
  the defect of C6, met from the size check.
\<close>

theorem bodyless_metadata_output_reaches_no_worker:
  "step_at (stack_definition bn) E W CheckMetadataPayloadSize
     (JObj [(''statusCode'', JNum 200), (''metadata'', m)]) =
     ([], Next ExtractMetadataForBedrock (JObj [(''statusCode'', JNum 200), (''metadata'', m)]))
   \<and> (\<exists>r. exec (3 + n) (stack_definition bn) E W CheckMetadataPayloadSize
             (JObj [(''statusCode'', JNum 200), (''metadata'', m)]) = Some r
          \<and> history r = []
          \<and> (path_of r = [CheckMetadataPayloadSize, ExtractMetadataForBedrock]
                \<and> terminal r = Failed (RuntimeError ExtractMetadataForBedrock)
              \<or> path_of r = [CheckMetadataPayloadSize, ExtractMetadataForBedrock,
                              GenerateImageDescriptionsNormal]
                \<and> terminal r = Failed (RuntimeError GenerateImageDescriptionsNormal)))
   \<and> map_option terminal
       (exec 3 (stack_definition ''processed'') sample_env inline_workers CheckMetadataPayloadSize
          (JObj [(''statusCode'', JNum 200), (''metadata'', sample_metadata)])) =
     Some (Failed (RuntimeError GenerateImageDescriptionsNormal))"
proof -
  let ?d = "JObj [(''statusCode'', JNum 200), (''metadata'', m)]"
  have sample: "map_option terminal
       (exec 3 (stack_definition ''processed'') sample_env inline_workers CheckMetadataPayloadSize
          (JObj [(''statusCode'', JNum 200), (''metadata'', sample_metadata)])) =
     Some (Failed (RuntimeError GenerateImageDescriptionsNormal))"
    by code_simp
  have s1: "step_at (stack_definition bn) E W CheckMetadataPayloadSize ?d =
      ([], Next ExtractMetadataForBedrock ?d)"
    by (simp add: step_CheckMetadataPayloadSize)
  obtain r where r: "exec (Suc (Suc n)) (stack_definition bn) E W ExtractMetadataForBedrock ?d = Some r"
    and h: "history r = []"
    and t: "path_of r = [ExtractMetadataForBedrock]
              \<and> terminal r = Failed (RuntimeError ExtractMetadataForBedrock)
            \<or> path_of r = [ExtractMetadataForBedrock, GenerateImageDescriptionsNormal]
              \<and> terminal r = Failed (RuntimeError GenerateImageDescriptionsNormal)"
    using inline_metadata_branch_never_invokes [of n bn E W ?d] by blast
  have "exec (Suc (Suc (Suc n))) (stack_definition bn) E W CheckMetadataPayloadSize ?d =
      Some \<lparr>path_of = CheckMetadataPayloadSize # path_of r, history = [] @ history r,
            terminal = terminal r\<rparr>"
    by (rule exec_Next_Some [OF s1 r])
  moreover have "3 + n = Suc (Suc (Suc n))" by simp
  ultimately have "exec (3 + n) (stack_definition bn) E W CheckMetadataPayloadSize ?d =
      Some \<lparr>path_of = CheckMetadataPayloadSize # path_of r, history = [] @ history r,
            terminal = terminal r\<rparr>"
    by (simp only:)
  with s1 h t sample show ?thesis by auto
qed

subsection \<open>Determinism\<close>

lemma step_workers_cong:
  "(is_task sd \<Longrightarrow> W1 s = W2 s) \<Longrightarrow> step sd E W1 s d = step sd E W2 s d"
  by (cases sd) (auto split: option.splits task_result.splits)

lemma step_at_workers_cong:
  "(is_task_at M s \<Longrightarrow> W1 s = W2 s) \<Longrightarrow> step_at M E W1 s d = step_at M E W2 s d"
  by (cases "M s") (auto simp: step_at_def is_task_at_def intro: step_workers_cong)

lemma exec_workers_agree:
  "exec n M E W1 s d = Some r \<Longrightarrow>
   (\<forall>t \<in> set (path_of r). is_task_at M t \<longrightarrow> W1 t = W2 t) \<Longrightarrow>
   exec n M E W2 s d = Some r"
proof (induction n arbitrary: s d r)
  case 0
  then show ?case by simp
next
  case (Suc n)
  obtain ivs res where st: "step_at M E W1 s d = (ivs, res)"
    by (cases "step_at M E W1 s d")
  have "s \<in> set (path_of r)"
    using exec_path_starts [OF Suc.prems(1)] by auto
  with Suc.prems(2) have "is_task_at M s \<Longrightarrow> W1 s = W2 s" by blast
  then have st2: "step_at M E W2 s d = (ivs, res)"
    using st step_at_workers_cong [where M = M and s = s and ?W1.0 = W1 and ?W2.0 = W2 and E = E and d = d]
    by simp
  show ?case
  proof (cases res)
    case (Next s' d')
    with st Suc.prems(1) obtain r' where r': "exec n M E W1 s' d' = Some r'"
      and r: "r = \<lparr>path_of = s # path_of r', history = ivs @ history r', terminal = terminal r'\<rparr>"
      by (auto split: option.splits)
    from r Suc.prems(2) have "\<forall>t \<in> set (path_of r'). is_task_at M t \<longrightarrow> W1 t = W2 t" by simp
    from Suc.IH [OF r' this] st2 Next r show ?thesis by simp
  next
    case (Halt out)
    with st st2 Suc.prems(1) show ?thesis by simp
  qed
qed

lemma first_step_forgets_input:
  "snd (step_at (stack_definition bn) E W ProcessDocumentWithTextract i1) =
   snd (step_at (stack_definition bn) E W ProcessDocumentWithTextract i2)"
  by (simp add: step_at_def textractTask_def invoke_result_def split: task_result.splits)

lemma exec_forgets_input:
  assumes "exec n (stack_definition bn) E W ProcessDocumentWithTextract i1 = Some r1"
  shows "\<exists>r2. exec n (stack_definition bn) E W ProcessDocumentWithTextract i2 = Some r2
           \<and> path_of r2 = path_of r1 \<and> terminal r2 = terminal r1"
proof (cases n)
  case 0
  with assms show ?thesis by simp
next
  case (Suc m)
  let ?M = "stack_definition bn"
  obtain ivs1 res where st1: "step_at ?M E W ProcessDocumentWithTextract i1 = (ivs1, res)"
    by (cases "step_at ?M E W ProcessDocumentWithTextract i1")
  with first_step_forgets_input [of bn E W i1 i2]
  have st2: "step_at ?M E W ProcessDocumentWithTextract i2 =
      (fst (step_at ?M E W ProcessDocumentWithTextract i2), res)"
    by (metis prod.collapse snd_conv)
  show ?thesis
  proof (cases res)
    case (Next s' d')
    with st1 assms Suc obtain r' where "exec m ?M E W s' d' = Some r'"
      and "path_of r1 = ProcessDocumentWithTextract # path_of r'" "terminal r1 = terminal r'"
      by (auto split: option.splits)
    with exec_Next_Some [OF st2 [unfolded Next]] Suc show ?thesis by simp
  next
    case (Halt out)
    with st1 assms Suc have "path_of r1 = [ProcessDocumentWithTextract]" "terminal r1 = out"
      by auto
    with exec_Halt [OF st2 [unfolded Halt]] Suc show ?thesis by simp
  qed
qed

text \<open>
  The interpreter does let an environment decide a branch: a rule on the entry time of the
  state goes one way in one environment and the other way in the other. What follows is
  therefore a property of the chain and not of the interpreter.
\<close>

lemma context_can_decide_a_branch:
  "step (Choice [(OfContext (StringGreaterThan [''State'', ''EnteredTime''] ''2025-04-01''),
                  ProcessingSucceeded)] ProcessingFailed) sample_env W s d =
     ([], Next ProcessingFailed d)
   \<and> step (Choice [(OfContext (StringGreaterThan [''State'', ''EnteredTime''] ''2025-04-01''),
                    ProcessingSucceeded)] ProcessingFailed) later_env W s d =
     ([], Next ProcessingSucceeded d)"
  by (simp add: sample_env_def later_env_def)

lemma data_only_eval:
  "data_only_template t \<Longrightarrow> eval_template a1 t d = eval_template a2 t d"
  "data_only_fields fs \<Longrightarrow> eval_fields a1 fs d = eval_fields a2 fs d"
  by (induction t and fs rule: data_only_template_data_only_fields.induct)
     (auto split: option.splits)

lemma data_only_condition_eval:
  "data_only_condition c \<Longrightarrow> eval_condition a1 c d = eval_condition a2 c d"
  by (induction c) (auto split: option.splits bool.splits)

lemma data_only_first_match:
  "data_only_rules rs \<Longrightarrow> first_match a1 rs dflt d = first_match a2 rs dflt d"
  by (induction rs)
     (auto simp: data_only_condition_eval [of _ a1 d a2] split: option.splits bool.splits)

lemma data_only_step:
  "data_only_state sd \<Longrightarrow> step sd E1 W s d = step sd E2 W s d"
proof (cases sd)
  case (Task f payload outputPath nxt)
  assume "data_only_state sd"
  with Task show ?thesis
    by (cases payload) (simp_all add: data_only_eval(1) [of _ "E1 s" d "E2 s"])
next
  case (Pass t nxt)
  assume "data_only_state sd"
  with Pass show ?thesis by (simp add: data_only_eval(1) [of t "E1 s" d "E2 s"])
next
  case (Choice rules dflt)
  assume "data_only_state sd"
  with Choice show ?thesis
    by (simp add: data_only_first_match [of rules "E1 s" dflt d "E2 s"])
qed simp_all

text \<open>
  No payload, no \<open>Pass\<close> parameter and no \<open>Choice\<close> rule of the chain reads the context
  object or calls a fresh-value intrinsic.
\<close>

lemma stack_data_only: "stack_definition bn s = Some sd \<Longrightarrow> data_only_state sd"
  by (cases s) (auto simp: construct_defs payload_too_large_def)

lemma step_at_environment:
  "step_at (stack_definition bn) E1 W s d = step_at (stack_definition bn) E2 W s d"
  by (cases "stack_definition bn s")
     (simp_all add: step_at_def data_only_step [OF stack_data_only])

lemma exec_environment:
  "exec n (stack_definition bn) E1 W s d = exec n (stack_definition bn) E2 W s d"
proof (induction n arbitrary: s d)
  case 0
  show ?case by simp
next
  case (Suc n)
  obtain ivs res where st: "step_at (stack_definition bn) E2 W s d = (ivs, res)"
    by (cases "step_at (stack_definition bn) E2 W s d")
  then have st1: "step_at (stack_definition bn) E1 W s d = (ivs, res)"
    by (simp add: step_at_environment [of bn E1 W s d E2])
  show ?case
  proof (cases res)
    case (Next s' d')
    with st st1 Suc.IH [of s' d'] show ?thesis by simp
  next
    case (Halt out)
    with st st1 show ?thesis by simp
  qed
qed

text \<open>
  C7. The path of an execution is determined by the outputs of the workers it invokes. A
  second execution whose workers return the same results at the task states of the first
  one's path goes through the same states and ends with the same outcome, whatever its
  environment (execution id, start time, entry times of the states, fresh values drawn),
  whatever its input document and whatever its workers would have returned elsewhere: no
  branch of the chain reads a clock or a random value.
\<close>

theorem path_determined_by_worker_outputs:
  assumes "start_execution bn E1 W1 input1 = Some r1"
    and "\<forall>t \<in> set (path_of r1). is_task_at (stack_definition bn) t \<longrightarrow> W1 t = W2 t"
  shows "\<exists>r2. start_execution bn E2 W2 input2 = Some r2
           \<and> path_of r2 = path_of r1 \<and> terminal r2 = terminal r1"
proof -
  from assms(1)
  have "exec 21 (stack_definition bn) E1 W1 ProcessDocumentWithTextract input1 = Some r1"
    by (simp add: start_execution_def documentProcessingStateMachine_def del: exec.simps)
  from exec_workers_agree [OF this assms(2)]
  have "exec 21 (stack_definition bn) E1 W2 ProcessDocumentWithTextract input1 = Some r1" .
  then have "exec 21 (stack_definition bn) E2 W2 ProcessDocumentWithTextract input1 = Some r1"
    by (simp only: exec_environment [of 21 bn E1 W2 ProcessDocumentWithTextract input1 E2])
  from exec_forgets_input [OF this, of input2] show ?thesis
    by (simp add: start_execution_def documentProcessingStateMachine_def del: exec.simps)
qed

theorem path_determined_by_worker_outputs_witness:
  "map_option path_of
     (start_execution ''processed'' later_env
        (large_workers(GenerateImageDescriptionsNormal := Returned JNull)) (JObj [])) =
   map_option path_of (start_execution ''processed'' sample_env large_workers sample_input)"
proof -
  have "map_option path_of (start_execution ''processed'' sample_env large_workers sample_input) =
     Some [ProcessDocumentWithTextract, CheckTextractProcessing, CheckTextractPayloadSize,
           StoreTextractResult, ExtractProcessedKeyLarge, ExtractAndStoreMetadata,
           CheckMetadataExtraction, CheckMetadataPayloadSize, StoreMetadataResult,
           RetrievePayload, ExtractMetadataForBedrockLarge, GenerateImageDescriptionsLarge,
           MapImageDescriptionFieldsLarge, AddToBedrockKnowledgeBase, CheckBedrockIntegration,
           ProcessingSucceeded]"
    by code_simp
  then obtain r1 where
    r1: "start_execution ''processed'' sample_env large_workers sample_input = Some r1"
    and p1: "path_of r1 =
          [ProcessDocumentWithTextract, CheckTextractProcessing, CheckTextractPayloadSize,
           StoreTextractResult, ExtractProcessedKeyLarge, ExtractAndStoreMetadata,
           CheckMetadataExtraction, CheckMetadataPayloadSize, StoreMetadataResult,
           RetrievePayload, ExtractMetadataForBedrockLarge, GenerateImageDescriptionsLarge,
           MapImageDescriptionFieldsLarge, AddToBedrockKnowledgeBase, CheckBedrockIntegration,
           ProcessingSucceeded]"
    by auto
  have agree: "\<forall>t \<in> set (path_of r1). is_task_at (stack_definition ''processed'') t \<longrightarrow>
      large_workers t = (large_workers(GenerateImageDescriptionsNormal := Returned JNull)) t"
    by (simp add: p1)
  from path_determined_by_worker_outputs
         [where ?E2.0 = later_env and ?input2.0 = "JObj []", OF r1 agree] r1
  show ?thesis by (auto simp: fun_upd_def)
qed

subsection \<open>The earlier copy of the stack\<close>

text \<open>
  In the earlier copy of the stack no execution invokes more than 5 workers, and an execution
  that stays inline at both size checks and runs to the end invokes exactly 3: the extractor,
  the metadata extractor and the ingestor.
\<close>

lemma stack_tasks_ahead_earlier:
  "stack_definition_earlier bn s = Some sd \<Longrightarrow>
     (if is_task sd then 1 else 0) \<le> tasks_ahead_earlier s \<and>
     (\<forall>s' \<in> set (succs sd).
        (if is_task sd then 1 else 0) + tasks_ahead_earlier s' \<le> tasks_ahead_earlier s)"
  by (cases s)
     (auto simp: construct_defs extractMetadataForBedrockLargeState_earlier_def
        bedrockTask_earlier_def)

lemma earlier_history_bound:
  assumes "exec n (stack_definition_earlier bn) E W ProcessDocumentWithTextract input = Some r"
  shows "length (history r) \<le> 5"
  using exec_history_budget
          [of "stack_definition_earlier bn" tasks_ahead_earlier, OF stack_tasks_ahead_earlier assms]
  by simp

lemma earlier_inline_run:
  "map_option (map fst \<circ> history)
     (exec 16 (stack_definition_earlier ''processed'') sample_env inline_workers ProcessDocumentWithTextract
        sample_input) =
     Some [ProcessDocumentWithTextract, ExtractAndStoreMetadata, AddToBedrockKnowledgeBase]
   \<and> map_option terminal
     (exec 16 (stack_definition_earlier ''processed'') sample_env inline_workers ProcessDocumentWithTextract
        sample_input) = Some Succeeded"
  by code_simp

end
